theory Spec2Isabelle
  imports Complex_Main "HOL-Library.Char_ord" "HOL-Library.List_Lexorder"
    "HOL-Library.Product_Lexorder" "HOL-Library.Multiset"
begin

section \<open>Python values, errors and the generator's state\<close>

text \<open>
  The module \<^verbatim>\<open>aces_ocio/create_aces_colorspaces.py\<close> is Python 2 code (it
  uses \<^verbatim>\<open>xrange\<close> and \<^verbatim>\<open>dict.iteritems\<close>).  Every exception it can raise is a
  value of \<open>py_error\<close>; a builder returns \<open>Inl\<close> of the error or \<open>Inr\<close> of its
  result and the new state.  Floats are idealised as the real numbers their
  literals denote: rounding is not modelled.
\<close>

datatype py_error =
    ValueError string
  | NameError string
  | UnboundLocalError string
  | KeyError string
  | TypeError
  | AttributeError
  | ZeroDivisionError

text \<open>
  The values held by the registries' metadata and by the renderer's parameter
  mapping: numbers and strings.  Python 2 orders any number before any
  string, numbers by value and strings byte by byte.
\<close>

datatype pyval = Num real | Str string

fun pyval_cmp :: "pyval \<Rightarrow> pyval \<Rightarrow> int" where
  "pyval_cmp (Num a) (Num b) = (if a < b then -1 else if b < a then 1 else 0)"
| "pyval_cmp (Num a) (Str t) = -1"
| "pyval_cmp (Str s) (Num b) = 1"
| "pyval_cmp (Str s) (Str t) = (if s < t then -1 else if t < s then 1 else 0)"

text \<open>
  A dict with string keys is the list of its items in increasing key order
  (\<open>wf_dict\<close>), so that two dicts are equal in Python exactly when their lists
  are equal.  The registries, whose iteration order the code reads through
  \<^verbatim>\<open>iteritems\<close>, are association lists in their native iteration order
  instead (\<open>registry\<close> below).
\<close>

type_synonym pydict = "(string \<times> pyval) list"


text \<open>\<^verbatim>\<open>k in d\<close>\<close>

definition has_key :: "pydict \<Rightarrow> string \<Rightarrow> bool" where
  "has_key d k = (map_of d k \<noteq> None)"

text \<open>\<^verbatim>\<open>d[k]\<close>, raising KeyError on a missing key.\<close>

definition getitem :: "pydict \<Rightarrow> string \<Rightarrow> py_error + pyval" where
  "getitem d k = (case map_of d k of None \<Rightarrow> Inl (KeyError k) | Some v \<Rightarrow> Inr v)"

text \<open>
  A metadata field used as text (a name or a path).  The registries hold
  strings there.  On a number the path functions of Python raise
  AttributeError; formatting with \<^verbatim>\<open>%s\<close> would print the number instead.  The
  model covers registries whose names and paths are strings, and reports
  AttributeError for every use of a number as text.
\<close>

definition as_text :: "pyval \<Rightarrow> py_error + string" where
  "as_text v = (case v of Str s \<Rightarrow> Inr s | Num r \<Rightarrow> Inl AttributeError)"

definition getitem_text :: "pydict \<Rightarrow> string \<Rightarrow> py_error + string" where
  "getitem_text d k = (case getitem d k of Inl e \<Rightarrow> Inl e | Inr v \<Rightarrow> as_text v)"

text \<open>\<^verbatim>\<open>d[k] = v\<close> on the key-ordered representation.\<close>

fun setitem :: "pydict \<Rightarrow> string \<Rightarrow> pyval \<Rightarrow> pydict" where
  "setitem [] k v = [(k, v)]"
| "setitem ((k', v') # d) k v =
     (if k = k' then (k, v) # d
      else if k < k' then (k, v) # (k', v') # d
      else (k', v') # setitem d k v)"

subsection \<open>Comparison of dicts in Python 2\<close>

text \<open>
  \<^verbatim>\<open>sorted(info.iteritems(), key=lambda x: x[1])\<close> compares the metadata dicts
  themselves.  CPython 2 compares two dicts by length first; for equal
  lengths it looks in each dict for the smallest key whose value the other
  dict lacks or holds differently (\<open>characterize\<close>), compares these two keys
  and, when they are the same key, the two values.
\<close>

definition characterize :: "pydict \<Rightarrow> pydict \<Rightarrow> (string \<times> pyval) option" where
  "characterize a b =
     fold (\<lambda>(k, v) akey.
             if (case akey of None \<Rightarrow> True | Some (ak, av) \<Rightarrow> k < ak) \<and> map_of b k \<noteq> Some v
             then Some (k, v) else akey) a None"

definition dict_compare :: "pydict \<Rightarrow> pydict \<Rightarrow> int" where
  "dict_compare a b =
     (if length a < length b then -1
      else if length b < length a then 1
      else (case characterize a b of
              None \<Rightarrow> 0
            | Some (adiff, aval) \<Rightarrow>
                (case characterize b a of
                   None \<Rightarrow> 0
                 | Some (bdiff, bval) \<Rightarrow>
                     if adiff < bdiff then -1
                     else if bdiff < adiff then 1
                     else pyval_cmp aval bval)))"

definition dict_lt :: "pydict \<Rightarrow> pydict \<Rightarrow> bool" where
  "dict_lt a b = (dict_compare a b < 0)"

text \<open>
  \<^verbatim>\<open>sorted(xs, key=f)\<close> is a stable sort that compares keys with \<open><\<close> only:
  each element is placed before the first element already placed whose key
  is not smaller than its own.
\<close>

fun sorted_insert :: "('k \<Rightarrow> 'k \<Rightarrow> bool) \<Rightarrow> ('a \<Rightarrow> 'k) \<Rightarrow> 'a \<Rightarrow> 'a list \<Rightarrow> 'a list" where
  "sorted_insert lt key x [] = [x]"
| "sorted_insert lt key x (y # ys) =
     (if lt (key y) (key x) then y # sorted_insert lt key x ys else x # y # ys)"

definition py_sorted :: "('k \<Rightarrow> 'k \<Rightarrow> bool) \<Rightarrow> ('a \<Rightarrow> 'k) \<Rightarrow> 'a list \<Rightarrow> 'a list" where
  "py_sorted lt key xs = foldr (sorted_insert lt key) xs []"

subsection \<open>Strings and paths\<close>

text \<open>\<^verbatim>\<open>str(n)\<close> for an integer.\<close>

definition digit_char :: "nat \<Rightarrow> char" where
  "digit_char d = ''0123456789'' ! d"

function str_nat :: "nat \<Rightarrow> string" where
  "str_nat n = (if n < 10 then [digit_char n] else str_nat (n div 10) @ [digit_char (n mod 10)])"
  by pat_completeness auto
termination
  by (relation "measure (\<lambda>n. n)") auto

definition str_int :: "int \<Rightarrow> string" where
  "str_int i = (if i < 0 then CHR ''-'' # str_nat (nat (- i)) else str_nat (nat i))"

text \<open>
  \<^verbatim>\<open>template % arg\<close> for a template with the single conversion \<^verbatim>\<open>%s\<close>, as the
  shaper bundles hold them.  Any other use of \<^verbatim>\<open>%\<close> in the template is
  reported as TypeError.
\<close>

fun format_s :: "string \<Rightarrow> string \<Rightarrow> py_error + string" where
  "format_s [] arg = Inl TypeError"
| "format_s (c # cs) arg =
     (if c = CHR ''%'' then
        (case cs of
           [] \<Rightarrow> Inl TypeError
         | d # ds \<Rightarrow> if d = CHR ''s'' \<and> CHR ''%'' \<notin> set ds then Inr (arg @ ds) else Inl TypeError)
      else (case format_s cs arg of Inl e \<Rightarrow> Inl e | Inr r \<Rightarrow> Inr (c # r)))"

text \<open>\<^verbatim>\<open>os.path.join\<close> of posixpath, for two and for three components.\<close>

definition path_join :: "string \<Rightarrow> string \<Rightarrow> string" where
  "path_join a b =
     (if b \<noteq> [] \<and> hd b = CHR ''/'' then b
      else if a = [] \<or> last a = CHR ''/'' then a @ b
      else a @ ''/'' @ b)"

definition path_join3 :: "string \<Rightarrow> string \<Rightarrow> string \<Rightarrow> string" where
  "path_join3 a b c = path_join (path_join a b) c"

text \<open>\<^verbatim>\<open>os.path.basename\<close>: what follows the last slash.\<close>

fun basename :: "string \<Rightarrow> string" where
  "basename [] = []"
| "basename (c # cs) = (if CHR ''/'' \<in> set cs then basename cs else if c = CHR ''/'' then cs else c # cs)"

subsection \<open>Transform steps and colour spaces\<close>

datatype direction = Forward | Inverse

datatype interpolation = Linear | Tetrahedral

text \<open>
  The transform dicts the builders append, by their \<^verbatim>\<open>'type'\<close>: matrix (with
  an optional offset), lutFile and log.
\<close>

datatype transform =
    Matrix "real list" "real list option" direction
  | LutFile string interpolation direction
  | Log real direction

datatype bit_depth_const = BIT_DEPTH_UINT10 | BIT_DEPTH_UINT16

datatype allocation_const = ALLOCATION_LG2

text \<open>
  Modelled from the spec: the class \<^verbatim>\<open>ColorSpace\<close> of \<^verbatim>\<open>aces_ocio.utilities\<close> is
  not part of the sources.  Its fields are those of the spec's data model;
  the constructor sets the name and leaves every other field empty.
\<close>

record ColorSpace =
  cs_name :: string
  cs_description :: string
  cs_aliases :: "string list"
  cs_equality_group :: string
  cs_family :: string
  cs_is_data :: bool
  cs_to_reference_transforms :: "transform list"
  cs_from_reference_transforms :: "transform list"
  cs_bit_depth :: "bit_depth_const option"
  cs_allocation_type :: "allocation_const option"
  cs_allocation_vars :: "real list"

definition ColorSpace_init :: "string \<Rightarrow> ColorSpace" where
  "ColorSpace_init n =
     \<lparr>cs_name = n, cs_description = [], cs_aliases = [], cs_equality_group = [],
      cs_family = [], cs_is_data = False, cs_to_reference_transforms = [],
      cs_from_reference_transforms = [], cs_bit_depth = None,
      cs_allocation_type = None, cs_allocation_vars = []\<rparr>"

text \<open>
  The helpers \<^verbatim>\<open>sanitize_path\<close>, \<^verbatim>\<open>compact\<close> and \<^verbatim>\<open>mat44_from_mat33\<close> of
  \<^verbatim>\<open>aces_ocio.utilities\<close> are not part of the sources either: every builder
  takes them as parameters, bundled in an \<open>env\<close>.
\<close>

record env =
  sanitize_path :: "string \<Rightarrow> string"
  compact_str :: "string \<Rightarrow> string"
  mat44_from_mat33 :: "real list \<Rightarrow> real list"

subsection \<open>The LUT directory and the renderer\<close>

datatype lut_kind = LUT_1D | LUT_3D

text \<open>
  One call of \<^verbatim>\<open>generate_1d_LUT_from_CTL\<close> or \<^verbatim>\<open>generate_3d_LUT_from_CTL\<close>, with
  its arguments in the order of the call.
\<close>

record render_call =
  rc_kind :: lut_kind
  rc_path :: string
  rc_ctls :: "string list"
  rc_resolution :: int
  rc_type :: string
  rc_input_scale :: real
  rc_output_scale :: real
  rc_params :: pydict
  rc_cleanup :: bool
  rc_aces_CTL_directory :: string
  rc_min_value :: "real option"
  rc_max_value :: "real option"

datatype lut_event =
    Rendered render_call
  | Wrote_SPI_1d string real real "real list" nat nat

text \<open>
  The state a generation run reads and changes: the paths that exist in the
  file system, and the renderer calls and table writes made so far.
\<close>

record gen_state =
  st_files :: "string set"
  st_events :: "lut_event list"

definition path_exists :: "gen_state \<Rightarrow> string \<Rightarrow> bool" where
  "path_exists st p = (p \<in> st_files st)"

text \<open>
  Modelled from the spec: the renderer (\<^verbatim>\<open>aces_ocio.generate_lut\<close>) is not part
  of the sources.  A call writes the table at its target path; the call is
  recorded.  A renderer failure ends the whole run and is not modelled.
\<close>

definition render :: "render_call \<Rightarrow> gen_state \<Rightarrow> gen_state" where
  "render c st =
     st\<lparr>st_files := insert (rc_path c) (st_files st), st_events := st_events st @ [Rendered c]\<rparr>"

definition generate_1d_LUT_from_CTL ::
  "string \<Rightarrow> string list \<Rightarrow> int \<Rightarrow> string \<Rightarrow> real \<Rightarrow> real \<Rightarrow> pydict \<Rightarrow> bool \<Rightarrow> string \<Rightarrow>
   real option \<Rightarrow> real option \<Rightarrow> gen_state \<Rightarrow> gen_state" where
  "generate_1d_LUT_from_CTL path ctls res ty in_scale out_scale ps cleanup ctl_dir mn mx =
     render \<lparr>rc_kind = LUT_1D, rc_path = path, rc_ctls = ctls, rc_resolution = res,
       rc_type = ty, rc_input_scale = in_scale, rc_output_scale = out_scale,
       rc_params = ps, rc_cleanup = cleanup, rc_aces_CTL_directory = ctl_dir,
       rc_min_value = mn, rc_max_value = mx\<rparr>"

definition generate_3d_LUT_from_CTL ::
  "string \<Rightarrow> string list \<Rightarrow> int \<Rightarrow> string \<Rightarrow> real \<Rightarrow> real \<Rightarrow> pydict \<Rightarrow> bool \<Rightarrow> string \<Rightarrow>
   gen_state \<Rightarrow> gen_state" where
  "generate_3d_LUT_from_CTL path ctls res ty in_scale out_scale ps cleanup ctl_dir =
     render \<lparr>rc_kind = LUT_3D, rc_path = path, rc_ctls = ctls, rc_resolution = res,
       rc_type = ty, rc_input_scale = in_scale, rc_output_scale = out_scale,
       rc_params = ps, rc_cleanup = cleanup, rc_aces_CTL_directory = ctl_dir,
       rc_min_value = None, rc_max_value = None\<rparr>"

definition write_SPI_1d ::
  "string \<Rightarrow> real \<Rightarrow> real \<Rightarrow> real list \<Rightarrow> nat \<Rightarrow> nat \<Rightarrow> gen_state \<Rightarrow> gen_state" where
  "write_SPI_1d path from_min from_max data entries channels st =
     st\<lparr>st_files := insert path (st_files st),
        st_events := st_events st @ [Wrote_SPI_1d path from_min from_max data entries channels]\<rparr>"

text \<open>The renderer calls among the events, in order.\<close>

fun rendered :: "lut_event list \<Rightarrow> render_call list" where
  "rendered [] = []"
| "rendered (Rendered c # es) = c # rendered es"
| "rendered (Wrote_SPI_1d p a b d n m # es) = rendered es"

section \<open>The builders\<close>

subsection \<open>Matrices\<close>

definition ACES_AP1_to_AP0 :: "real list" where
  "ACES_AP1_to_AP0 =
     [0.6954522414, 0.1406786965, 0.1638690622,
      0.0447945634, 0.8596711185, 0.0955343182,
      -0.0055258826, 0.0040252103, 1.0015006723]"

definition ACES_AP0_to_XYZ :: "real list" where
  "ACES_AP0_to_XYZ =
     [0.9525523959, 0.0000000000, 0.0000936786,
      0.3439664498, 0.7281660966, -0.0721325464,
      0.0000000000, 0.0000000000, 1.0088251844]"

subsection \<open>ACEScc, ACESproxy, ACEScg\<close>

text \<open>
  \<^verbatim>\<open>create_ACEScc\<close> (lines 60-115).  The renderer is called without looking at
  the LUT directory first.
\<close>

definition create_ACEScc ::
  "env \<Rightarrow> string \<Rightarrow> string \<Rightarrow> int \<Rightarrow> bool \<Rightarrow> string \<Rightarrow> real \<Rightarrow> real \<Rightarrow> real \<Rightarrow>
   gen_state \<Rightarrow> ColorSpace \<times> gen_state" where
  "create_ACEScc E aces_CTL_directory lut_directory lut_resolution_1d cleanup name
       min_value max_value input_scale st =
     (let cs = (ColorSpace_init name)\<lparr>
            cs_description := ''The '' @ name @ '' color space'',
            cs_aliases := [''acescc_ap1''],
            cs_equality_group := [],
            cs_family := ''ACES'',
            cs_is_data := False\<rparr>;
          ctls = [path_join3 aces_CTL_directory ''ACEScc'' ''ACEScsc.ACEScc_to_ACES.a1.0.0.ctl'',
                  path_join3 aces_CTL_directory ''ACEScg'' ''ACEScsc.ACES_to_ACEScg.a1.0.0.ctl''];
          lut = sanitize_path E (name @ ''_to_ACES.spi1d'');
          st1 = generate_1d_LUT_from_CTL (path_join lut_directory lut) ctls lut_resolution_1d
                  ''float'' input_scale 1 [] cleanup aces_CTL_directory
                  (Some min_value) (Some max_value) st
      in (cs\<lparr>cs_to_reference_transforms :=
                [LutFile lut Linear Forward,
                 Matrix (mat44_from_mat33 E ACES_AP1_to_AP0) None Forward],
              cs_from_reference_transforms := []\<rparr>, st1))"

text \<open>\<^verbatim>\<open>create_ACESproxy\<close> (lines 121-173).\<close>

definition create_ACESproxy ::
  "env \<Rightarrow> string \<Rightarrow> string \<Rightarrow> int \<Rightarrow> bool \<Rightarrow> string \<Rightarrow> gen_state \<Rightarrow> ColorSpace \<times> gen_state" where
  "create_ACESproxy E aces_CTL_directory lut_directory lut_resolution_1d cleanup name st =
     (let cs = (ColorSpace_init name)\<lparr>
            cs_description := ''The '' @ name @ '' color space'',
            cs_aliases := [''acesproxy_ap1''],
            cs_equality_group := [],
            cs_family := ''ACES'',
            cs_is_data := False\<rparr>;
          ctls = [path_join3 aces_CTL_directory ''ACESproxy''
                    ''ACEScsc.ACESproxy10i_to_ACES.a1.0.0.ctl'',
                  path_join3 aces_CTL_directory ''ACEScg'' ''ACEScsc.ACES_to_ACEScg.a1.0.0.ctl''];
          lut = sanitize_path E (name @ ''_to_aces.spi1d'');
          st1 = generate_1d_LUT_from_CTL (path_join lut_directory lut) ctls lut_resolution_1d
                  ''uint16'' 64 1 [] cleanup aces_CTL_directory None None st
      in (cs\<lparr>cs_to_reference_transforms :=
                [LutFile lut Linear Forward,
                 Matrix (mat44_from_mat33 E ACES_AP1_to_AP0) None Forward],
              cs_from_reference_transforms := []\<rparr>, st1))"

text \<open>\<^verbatim>\<open>create_ACEScg\<close> (lines 178-200): matrix only, the state is not touched.\<close>

definition create_ACEScg ::
  "env \<Rightarrow> string \<Rightarrow> string \<Rightarrow> int \<Rightarrow> bool \<Rightarrow> string \<Rightarrow> ColorSpace" where
  "create_ACEScg E aces_CTL_directory lut_directory lut_resolution_1d cleanup name =
     (ColorSpace_init name)\<lparr>
        cs_description := ''The '' @ name @ '' color space'',
        cs_aliases := [''lin_ap1''],
        cs_equality_group := [],
        cs_family := ''ACES'',
        cs_is_data := False,
        cs_to_reference_transforms := [Matrix (mat44_from_mat33 E ACES_AP1_to_AP0) None Forward],
        cs_from_reference_transforms := []\<rparr>"

subsection \<open>ADX\<close>

text \<open>
  \<^verbatim>\<open>numpy.interp(x, xp, fp)\<close> for increasing \<open>xp\<close>: the piecewise linear
  interpolant through the points, constant outside of them.
\<close>

fun interp_points :: "real \<Rightarrow> (real \<times> real) list \<Rightarrow> real" where
  "interp_points x [] = 0"
| "interp_points x [(x0, y0)] = y0"
| "interp_points x ((x0, y0) # (x1, y1) # ps) =
     (if x < x1 then (if x \<le> x0 then y0 else (y1 - y0) / (x1 - x0) * (x - x0) + y0)
      else interp_points x ((x1, y1) # ps))"

definition interpolate_1D :: "real \<Rightarrow> real list \<Rightarrow> real list \<Rightarrow> real" where
  "interpolate_1D x xp fp = interp_points x (zip xp fp)"

definition LUT_1D_xp :: "real list" where
  "LUT_1D_xp =
     [-0.190000000000000, 0.010000000000000, 0.028000000000000, 0.054000000000000,
      0.095000000000000, 0.145000000000000, 0.220000000000000, 0.300000000000000,
      0.400000000000000, 0.500000000000000, 0.600000000000000]"

definition LUT_1D_fp :: "real list" where
  "LUT_1D_fp =
     [-6.000000000000000, -2.721718645000000, -2.521718645000000, -2.321718645000000,
      -2.121718645000000, -1.921718645000000, -1.721718645000000, -1.521718645000000,
      -1.321718645000000, -1.121718645000000, -0.926545676714876]"

definition REF_PT :: real where
  "REF_PT = (7120 - 1520) / 8000 * (100 / 55) - log 10 0.18"

text \<open>\<^verbatim>\<open>cid_to_rle\<close> (lines 284-287).\<close>

definition cid_to_rle :: "real \<Rightarrow> real" where
  "cid_to_rle x =
     (if x \<le> 0.6 then interpolate_1D x LUT_1D_xp LUT_1D_fp
      else (100 / 55) * x - REF_PT)"

text \<open>\<^verbatim>\<open>fit\<close> (lines 289-293).\<close>

definition fit :: "real \<Rightarrow> real \<Rightarrow> real \<Rightarrow> real \<Rightarrow> real \<Rightarrow> py_error + real" where
  "fit value from_min from_max to_min to_max =
     (if from_min = from_max then Inl (ValueError ''from_min == from_max'')
      else Inr ((value - from_min) / (from_max - from_min) * (to_max - to_min) + to_min))"

definition NUM_SAMPLES :: nat where
  "NUM_SAMPLES = 2 ^ 12"

definition RANGE :: "real \<times> real" where
  "RANGE = (-0.19, 3.0)"

text \<open>The loop over \<^verbatim>\<open>xrange(NUM_SAMPLES)\<close> (lines 298-301).\<close>

fun sample_loop :: "nat list \<Rightarrow> real list \<Rightarrow> py_error + real list" where
  "sample_loop [] data = Inr data"
| "sample_loop (i # rest) data =
     (case fit (real i / (real NUM_SAMPLES - 1)) 0 1 (fst RANGE) (snd RANGE) of
        Inl e \<Rightarrow> Inl e
      | Inr x \<Rightarrow> sample_loop rest (data @ [cid_to_rle x]))"

text \<open>\<^verbatim>\<open>create_CID_to_RLE_LUT\<close> (lines 252-310).\<close>

definition create_CID_to_RLE_LUT :: "string \<Rightarrow> gen_state \<Rightarrow> py_error + (string \<times> gen_state)" where
  "create_CID_to_RLE_LUT lut_directory st =
     (case sample_loop [0..<NUM_SAMPLES] [] of
        Inl e \<Rightarrow> Inl e
      | Inr data \<Rightarrow>
          (let lut = ''ADX_CID_to_RLE.spi1d''
           in Inr (lut, write_SPI_1d (path_join lut_directory lut) (fst RANGE) (snd RANGE)
                          data NUM_SAMPLES 1 st)))"

text \<open>
  \<^verbatim>\<open>create_ADX\<close> (lines 205-338).  The locals \<^verbatim>\<open>adx_to_cdd\<close> and \<^verbatim>\<open>offset\<close> are
  assigned in the branches for 10 and 16 bits only; \<open>None\<close> stands for the
  unassigned locals, whose first use (line 238) raises UnboundLocalError.
\<close>

definition create_ADX ::
  "string \<Rightarrow> int \<Rightarrow> int \<Rightarrow> string \<Rightarrow> gen_state \<Rightarrow> py_error + (ColorSpace \<times> gen_state)" where
  "create_ADX lut_directory lut_resolution_1d bit_depth name0 st =
     (let name = name0 @ str_int bit_depth;
          cs = (ColorSpace_init name)\<lparr>
            cs_description := name @ '' color space - used for film scans'',
            cs_aliases := [''adx'' @ str_int bit_depth],
            cs_equality_group := [],
            cs_family := ''ADX'',
            cs_is_data := False\<rparr>;
          (cs, assigned) =
            (if bit_depth = 10 then
               (cs\<lparr>cs_bit_depth := Some BIT_DEPTH_UINT10\<rparr>,
                Some ([1023 / 500, 0, 0, 0,
                       0, 1023 / 500, 0, 0,
                       0, 0, 1023 / 500, 0,
                       0, 0, 0, 1],
                      [-95 / 500, -95 / 500, -95 / 500, 0]))
             else if bit_depth = 16 then
               (cs\<lparr>cs_bit_depth := Some BIT_DEPTH_UINT16\<rparr>,
                Some ([65535 / 8000, 0, 0, 0,
                       0, 65535 / 8000, 0, 0,
                       0, 0, 65535 / 8000, 0,
                       0, 0, 0, 1],
                      [-1520 / 8000, -1520 / 8000, -1520 / 8000, 0]))
             else (cs, None))
      in case assigned of
           None \<Rightarrow> Inl (UnboundLocalError ''adx_to_cdd'')
         | Some (adx_to_cdd, offset) \<Rightarrow>
             (let cs = cs\<lparr>cs_to_reference_transforms :=
                    [Matrix adx_to_cdd (Some offset) Forward,
                     Matrix [0.75573, 0.22197, 0.02230, 0,
                             0.05901, 0.96928, -0.02829, 0,
                             0.16134, 0.07406, 0.76460, 0,
                             0, 0, 0, 1] None Forward]\<rparr>
              in case create_CID_to_RLE_LUT lut_directory st of
                   Inl e \<Rightarrow> Inl e
                 | Inr (lut, st1) \<Rightarrow>
                     Inr (cs\<lparr>cs_to_reference_transforms :=
                              cs_to_reference_transforms cs @
                              [LutFile lut Linear Forward,
                               Log 10 Inverse,
                               Matrix [0.72286, 0.12630, 0.15084, 0,
                                       0.11923, 0.76418, 0.11659, 0,
                                       0.01427, 0.08213, 0.90359, 0,
                                       0, 0, 0, 1] None Forward],
                            cs_from_reference_transforms := []\<rparr>, st1)))"

subsection \<open>The generic log transform\<close>

text \<open>
  \<^verbatim>\<open>create_generic_log\<close> (lines 343-393).  The parameter dict of the call is
  written in key order.
\<close>

definition create_generic_log ::
  "env \<Rightarrow> string \<Rightarrow> string \<Rightarrow> int \<Rightarrow> bool \<Rightarrow> string \<Rightarrow> string list \<Rightarrow> real \<Rightarrow> real \<Rightarrow> real \<Rightarrow>
   real \<Rightarrow> real \<Rightarrow> real \<Rightarrow> gen_state \<Rightarrow> ColorSpace \<times> gen_state" where
  "create_generic_log E aces_CTL_directory lut_directory lut_resolution_1d cleanup name aliases
       min_value max_value input_scale middle_grey min_exposure max_exposure st =
     (let cs = (ColorSpace_init name)\<lparr>
            cs_description := ''The '' @ name @ '' color space'',
            cs_aliases := aliases,
            cs_equality_group := name,
            cs_family := ''Utility'',
            cs_is_data := False\<rparr>;
          ctls = [path_join3 aces_CTL_directory ''utilities''
                    ''ACESlib.OCIO_shaper_log2_to_lin_param.a1.0.0.ctl''];
          lut = sanitize_path E (name @ ''_to_aces.spi1d'');
          st1 = generate_1d_LUT_from_CTL (path_join lut_directory lut) ctls lut_resolution_1d
                  ''float'' input_scale 1
                  [(''maxExposure'', Num max_exposure),
                   (''middleGrey'', Num middle_grey),
                   (''minExposure'', Num min_exposure)]
                  cleanup aces_CTL_directory (Some min_value) (Some max_value) st
      in (cs\<lparr>cs_to_reference_transforms := [LutFile lut Linear Forward],
              cs_from_reference_transforms := []\<rparr>, st1))"

subsection \<open>Look transforms\<close>

text \<open>
  The shaper bundle \<^verbatim>\<open>shaper_info\<close>: name, the two CTL path templates, the
  input scale and the parameter dict.
\<close>

type_synonym shaper_info = "string \<times> string \<times> string \<times> real \<times> pydict"

text \<open>
  The shaper LUT of a look or output transform (lines 424-439, and the same
  text at lines 616-631): it is rendered unless a file exists at the path of
  the name before \<^verbatim>\<open>sanitize_path\<close>.  The result is the name the transforms will
  refer to.
\<close>

definition generate_shaper_lut ::
  "env \<Rightarrow> string \<Rightarrow> string \<Rightarrow> real \<Rightarrow> pydict \<Rightarrow> string \<Rightarrow> string \<Rightarrow> int \<Rightarrow> bool \<Rightarrow>
   gen_state \<Rightarrow> py_error + (string \<times> gen_state)" where
  "generate_shaper_lut E shaper_name shaper_to_ACES_CTL shaper_input_scale shaper_params
       aces_CTL_directory lut_directory lut_resolution_1d cleanup st =
     (let shaper_lut = shaper_name @ ''_to_aces.spi1d''
      in if \<not> path_exists st (path_join lut_directory shaper_lut) then
           (case format_s shaper_to_ACES_CTL aces_CTL_directory of
              Inl e \<Rightarrow> Inl e
            | Inr ctl \<Rightarrow>
                (let shaper_lut = sanitize_path E shaper_lut
                 in if shaper_input_scale = 0 then Inl ZeroDivisionError
                    else Inr (shaper_lut,
                           generate_1d_LUT_from_CTL (path_join lut_directory shaper_lut) [ctl]
                             lut_resolution_1d ''float'' (1 / shaper_input_scale) 1
                             shaper_params cleanup aces_CTL_directory None None st)))
         else Inr (shaper_lut, st))"

text \<open>
  \<^verbatim>\<open>create_ACES_LMT\<close> (lines 399-509).  The inverse branch (lines 480-507)
  reads \<^verbatim>\<open>odt_values\<close>, a name that is bound neither in the function nor in
  the module: evaluating the first element of \<^verbatim>\<open>ctls\<close> raises NameError.
\<close>

definition create_ACES_LMT ::
  "env \<Rightarrow> string \<Rightarrow> pydict \<Rightarrow> shaper_info \<Rightarrow> string \<Rightarrow> string \<Rightarrow> int \<Rightarrow> int \<Rightarrow> bool \<Rightarrow>
   string list \<Rightarrow> gen_state \<Rightarrow> py_error + (ColorSpace \<times> gen_state)" where
  "create_ACES_LMT E lmt_name lmt_values shaper_info aces_CTL_directory lut_directory
       lut_resolution_1d lut_resolution_3d cleanup aliases st =
     (case shaper_info of
        (shaper_name, shaper_to_ACES_CTL, shaper_from_ACES_CTL, shaper_input_scale,
         shaper_params) \<Rightarrow>
     (let cs = (ColorSpace_init lmt_name)\<lparr>
            cs_description := ''The ACES Look Transform: '' @ lmt_name,
            cs_aliases := aliases,
            cs_equality_group := [],
            cs_family := ''Look'',
            cs_is_data := False\<rparr>
      in case generate_shaper_lut E shaper_name shaper_to_ACES_CTL shaper_input_scale
                shaper_params aces_CTL_directory lut_directory lut_resolution_1d cleanup st of
           Inl e \<Rightarrow> Inl e
         | Inr (shaper_lut, st1) \<Rightarrow>
     (let shaper_OCIO_transform = LutFile shaper_lut Linear Inverse
      in case (if has_key lmt_values ''transformCTL'' then
                 (case format_s shaper_to_ACES_CTL aces_CTL_directory of
                    Inl e \<Rightarrow> Inl e
                  | Inr ctl \<Rightarrow>
                 (case getitem_text lmt_values ''transformCTL'' of
                    Inl e \<Rightarrow> Inl e
                  | Inr transformCTL \<Rightarrow>
                 (let ctls = [ctl, path_join aces_CTL_directory transformCTL];
                      lut = sanitize_path E (shaper_name @ ''.'' @ lmt_name @ ''.spi3d'')
                  in if shaper_input_scale = 0 then Inl ZeroDivisionError
                     else Inr ([shaper_OCIO_transform, LutFile lut Tetrahedral Forward],
                            generate_3d_LUT_from_CTL (path_join lut_directory lut) ctls
                              lut_resolution_3d ''float'' (1 / shaper_input_scale) 1
                              shaper_params cleanup aces_CTL_directory st1))))
               else Inr ([], st1)) of
           Inl e \<Rightarrow> Inl e
         | Inr (from_reference_transforms, st2) \<Rightarrow>
             if has_key lmt_values ''transformCTLInverse'' then Inl (NameError ''odt_values'')
             else Inr (cs\<lparr>cs_from_reference_transforms := from_reference_transforms,
                            cs_to_reference_transforms := []\<rparr>, st2))))"

text \<open>
  A registry (\<^verbatim>\<open>lmt_info\<close>, \<^verbatim>\<open>odt_info\<close>): the items of the dict in the order
  \<^verbatim>\<open>iteritems\<close> yields them.
\<close>

type_synonym registry = "(string \<times> pydict) list"

text \<open>The loop of \<^verbatim>\<open>create_lmts\<close> over \<^verbatim>\<open>sorted_LMTs\<close> (lines 565-578).\<close>

fun lmts_loop ::
  "env \<Rightarrow> shaper_info \<Rightarrow> string \<Rightarrow> string \<Rightarrow> int \<Rightarrow> int \<Rightarrow> bool \<Rightarrow> registry \<Rightarrow>
   ColorSpace list \<Rightarrow> gen_state \<Rightarrow> py_error + (ColorSpace list \<times> gen_state)" where
  "lmts_loop E lmt_shaper_data aces_CTL_directory lut_directory lmt_lut_resolution_1d
       lmt_lut_resolution_3d cleanup [] colorspaces st = Inr (colorspaces, st)"
| "lmts_loop E lmt_shaper_data aces_CTL_directory lut_directory lmt_lut_resolution_1d
       lmt_lut_resolution_3d cleanup ((lmt_name, lmt_values) # rest) colorspaces st =
     (case getitem_text lmt_values ''transformUserName'' of
        Inl e \<Rightarrow> Inl e
      | Inr user_name \<Rightarrow>
          (case create_ACES_LMT E user_name lmt_values lmt_shaper_data aces_CTL_directory
                  lut_directory lmt_lut_resolution_1d lmt_lut_resolution_3d cleanup
                  [''look_'' @ compact_str E user_name] st of
             Inl e \<Rightarrow> Inl e
           | Inr (cs, st1) \<Rightarrow>
               lmts_loop E lmt_shaper_data aces_CTL_directory lut_directory
                 lmt_lut_resolution_1d lmt_lut_resolution_3d cleanup rest
                 (colorspaces @ [cs]) st1))"

text \<open>\<^verbatim>\<open>sorted(info.iteritems(), key=lambda x: x[1])\<close> (lines 563 and 823).\<close>

definition sorted_by_metadata :: "registry \<Rightarrow> registry" where
  "sorted_by_metadata info = py_sorted dict_lt snd info"

text \<open>\<^verbatim>\<open>create_lmts\<close> (lines 514-580).\<close>

definition create_lmts ::
  "env \<Rightarrow> string \<Rightarrow> string \<Rightarrow> int \<Rightarrow> int \<Rightarrow> registry \<Rightarrow> string \<Rightarrow> bool \<Rightarrow>
   gen_state \<Rightarrow> py_error + (ColorSpace list \<times> gen_state)" where
  "create_lmts E aces_CTL_directory lut_directory lut_resolution_1d lut_resolution_3d lmt_info
       shaper_name cleanup st =
     (let lmt_lut_resolution_1d = max 4096 lut_resolution_1d;
          lmt_lut_resolution_3d = max 65 lut_resolution_3d;
          lmt_shaper_name = ''LMT Shaper'';
          lmt_shaper_name_aliases = [''crv_lmtshaper''];
          lmt_params = [(''maxExposure'', Num 6.5),
                        (''middleGrey'', Num 0.18),
                        (''minExposure'', Num (-10))];
          (lmt_shaper, st1) =
             create_generic_log E aces_CTL_directory lut_directory lmt_lut_resolution_1d cleanup
               lmt_shaper_name lmt_shaper_name_aliases 0 1 1 0.18 (-10) 6.5 st;
          colorspaces = [lmt_shaper];
          shaper_input_scale_generic_log2 = 1;
          lmt_shaper_data =
            (lmt_shaper_name,
             path_join3 ''%s'' ''utilities'' ''ACESlib.OCIO_shaper_log2_to_lin_param.a1.0.0.ctl'',
             path_join3 ''%s'' ''utilities'' ''ACESlib.OCIO_shaper_lin_to_log2_param.a1.0.0.ctl'',
             shaper_input_scale_generic_log2,
             lmt_params);
          sorted_LMTs = sorted_by_metadata lmt_info
      in lmts_loop E lmt_shaper_data aces_CTL_directory lut_directory lmt_lut_resolution_1d
           lmt_lut_resolution_3d cleanup sorted_LMTs colorspaces st1)"

subsection \<open>Output transforms\<close>

text \<open>
  \<^verbatim>\<open>create_ACES_RRT_plus_ODT\<close> (lines 585-738).  Lines 611-614 store
  \<^verbatim>\<open>legalRange\<close> into the parameter dict of the bundle it was given, the one
  dict object every call shares: the builder returns the dict as it leaves
  it, beside the colour space.  The branches for a supplied LUT file (lines
  642-653 and 689-703) call \<^verbatim>\<open>shutil.copy\<close>, and the module never imports
  \<^verbatim>\<open>shutil\<close>: the call raises NameError.
\<close>

definition odt_forward ::
  "env \<Rightarrow> string \<Rightarrow> pydict \<Rightarrow> string \<Rightarrow> string \<Rightarrow> real \<Rightarrow> pydict \<Rightarrow> transform \<Rightarrow> string \<Rightarrow>
   string \<Rightarrow> int \<Rightarrow> bool \<Rightarrow> gen_state \<Rightarrow> py_error + (transform list \<times> gen_state)" where
  "odt_forward E odt_name odt_values shaper_name shaper_to_ACES_CTL shaper_input_scale
       shaper_params shaper_OCIO_transform aces_CTL_directory lut_directory lut_resolution_3d
       cleanup st =
     (if has_key odt_values ''transformLUT'' then
        (case getitem_text odt_values ''transformLUT'' of
           Inl e \<Rightarrow> Inl e
         | Inr transformLUT \<Rightarrow>
             (let transform_LUT_file_name = basename transformLUT;
                  lut = path_join lut_directory transform_LUT_file_name
              in Inl (NameError ''shutil'')))
      else if has_key odt_values ''transformCTL'' then
        (case format_s shaper_to_ACES_CTL aces_CTL_directory of
           Inl e \<Rightarrow> Inl e
         | Inr ctl \<Rightarrow>
        (case getitem_text odt_values ''transformCTL'' of
           Inl e \<Rightarrow> Inl e
         | Inr transformCTL \<Rightarrow>
        (let ctls = [ctl,
                     path_join3 aces_CTL_directory ''rrt'' ''RRT.a1.0.0.ctl'',
                     path_join3 aces_CTL_directory ''odt'' transformCTL];
             lut = sanitize_path E (shaper_name @ ''.RRT.a1.0.0.'' @ odt_name @ ''.spi3d'')
         in if shaper_input_scale = 0 then Inl ZeroDivisionError
            else Inr ([shaper_OCIO_transform, LutFile lut Tetrahedral Forward],
                   generate_3d_LUT_from_CTL (path_join lut_directory lut) ctls
                     lut_resolution_3d ''float'' (1 / shaper_input_scale) 1
                     shaper_params cleanup aces_CTL_directory st))))
      else Inr ([], st))"

definition odt_inverse ::
  "env \<Rightarrow> string \<Rightarrow> pydict \<Rightarrow> string \<Rightarrow> string \<Rightarrow> real \<Rightarrow> pydict \<Rightarrow> string \<Rightarrow> string \<Rightarrow>
   string \<Rightarrow> int \<Rightarrow> bool \<Rightarrow> gen_state \<Rightarrow> py_error + (transform list \<times> gen_state)" where
  "odt_inverse E odt_name odt_values shaper_name shaper_from_ACES_CTL shaper_input_scale
       shaper_params shaper_lut aces_CTL_directory lut_directory lut_resolution_3d
       cleanup st =
     (if has_key odt_values ''transformLUTInverse'' then
        (case getitem_text odt_values ''transformLUTInverse'' of
           Inl e \<Rightarrow> Inl e
         | Inr transformLUTInverse \<Rightarrow>
             (let transform_LUT_inverse_file_name = basename transformLUTInverse;
                  lut = path_join lut_directory transform_LUT_inverse_file_name
              in Inl (NameError ''shutil'')))
      else if has_key odt_values ''transformCTLInverse'' then
        (case getitem_text odt_values ''transformCTLInverse'' of
           Inl e \<Rightarrow> Inl e
         | Inr transformCTLInverse \<Rightarrow>
        (case format_s shaper_from_ACES_CTL aces_CTL_directory of
           Inl e \<Rightarrow> Inl e
         | Inr ctl \<Rightarrow>
        (let ctls = [path_join3 aces_CTL_directory ''odt'' transformCTLInverse,
                     path_join3 aces_CTL_directory ''rrt'' ''InvRRT.a1.0.0.ctl'',
                     ctl];
             lut = sanitize_path E (''InvRRT.a1.0.0.'' @ odt_name @ ''.'' @ shaper_name @ ''.spi3d'')
         in Inr ([LutFile lut Tetrahedral Forward, LutFile shaper_lut Linear Forward],
              generate_3d_LUT_from_CTL (path_join lut_directory lut) ctls
                lut_resolution_3d ''half'' 1 shaper_input_scale
                shaper_params cleanup aces_CTL_directory st))))
      else Inr ([], st))"

definition create_ACES_RRT_plus_ODT ::
  "env \<Rightarrow> string \<Rightarrow> pydict \<Rightarrow> shaper_info \<Rightarrow> string \<Rightarrow> string \<Rightarrow> int \<Rightarrow> int \<Rightarrow> bool \<Rightarrow>
   string list \<Rightarrow> gen_state \<Rightarrow> py_error + ((ColorSpace \<times> pydict) \<times> gen_state)" where
  "create_ACES_RRT_plus_ODT E odt_name odt_values shaper_info aces_CTL_directory lut_directory
       lut_resolution_1d lut_resolution_3d cleanup aliases st =
     (case getitem_text odt_values ''transformUserNamePrefix'' of
        Inl e \<Rightarrow> Inl e
      | Inr prefix \<Rightarrow>
     (let cs = (ColorSpace_init odt_name)\<lparr>
            cs_description := prefix @ '' - '' @ odt_name @ '' Output Transform'',
            cs_aliases := aliases,
            cs_equality_group := [],
            cs_family := ''Output'',
            cs_is_data := False\<rparr>
      in case shaper_info of
           (shaper_name, shaper_to_ACES_CTL, shaper_from_ACES_CTL, shaper_input_scale,
            shaper_params0) \<Rightarrow>
     (case (if has_key odt_values ''legalRange'' then getitem odt_values ''legalRange''
            else Inr (Num 0)) of
        Inl e \<Rightarrow> Inl e
      | Inr legalRange \<Rightarrow>
     (let shaper_params = setitem shaper_params0 ''legalRange'' legalRange
      in case generate_shaper_lut E shaper_name shaper_to_ACES_CTL shaper_input_scale
                shaper_params aces_CTL_directory lut_directory lut_resolution_1d cleanup st of
           Inl e \<Rightarrow> Inl e
         | Inr (shaper_lut, st1) \<Rightarrow>
     (let shaper_OCIO_transform = LutFile shaper_lut Linear Inverse
      in case odt_forward E odt_name odt_values shaper_name shaper_to_ACES_CTL
                shaper_input_scale shaper_params shaper_OCIO_transform aces_CTL_directory
                lut_directory lut_resolution_3d cleanup st1 of
           Inl e \<Rightarrow> Inl e
         | Inr (from_reference_transforms, st2) \<Rightarrow>
     (case odt_inverse E odt_name odt_values shaper_name shaper_from_ACES_CTL
             shaper_input_scale shaper_params shaper_lut aces_CTL_directory
             lut_directory lut_resolution_3d cleanup st2 of
        Inl e \<Rightarrow> Inl e
      | Inr (to_reference_transforms, st3) \<Rightarrow>
          Inr ((cs\<lparr>cs_from_reference_transforms := from_reference_transforms,
                    cs_to_reference_transforms := to_reference_transforms\<rparr>,
                shaper_params), st3)))))))"

text \<open>The identifiers that get a legal range and a full range variant (lines 829-831).\<close>

definition dual_range_odts :: "string list" where
  "dual_range_odts =
     [''Academy.Rec2020_100nits_dim.a1.0.0'',
      ''Academy.Rec709_100nits_dim.a1.0.0'',
      ''Academy.Rec709_D60sim_100nits_dim.a1.0.0'']"

text \<open>The display grouping: \<^verbatim>\<open>displays[name] = {'Linear': .., 'Log': .., 'Output Transform': ..}\<close>.\<close>

type_synonym displays = "(string \<times> (ColorSpace \<times> ColorSpace \<times> ColorSpace)) list"

fun displays_set ::
  "displays \<Rightarrow> string \<Rightarrow> ColorSpace \<times> ColorSpace \<times> ColorSpace \<Rightarrow> displays" where
  "displays_set [] k v = [(k, v)]"
| "displays_set ((k', v') # d) k v =
     (if k = k' then (k, v) # d else (k', v') # displays_set d k v)"

text \<open>
  One round of the loop of \<^verbatim>\<open>create_odts\<close> (lines 825-884).  The bundle
  \<^verbatim>\<open>rrt_shaper\<close> is one list object for all rounds; its parameter dict is
  passed on as each builder call leaves it.
\<close>

definition odt_round ::
  "env \<Rightarrow> string \<Rightarrow> string \<Rightarrow> int \<Rightarrow> int \<Rightarrow> bool \<Rightarrow> ColorSpace \<Rightarrow> ColorSpace \<Rightarrow>
   string \<times> pydict \<Rightarrow> ColorSpace list \<times> displays \<times> shaper_info \<Rightarrow> gen_state \<Rightarrow>
   py_error + ((ColorSpace list \<times> displays \<times> shaper_info) \<times> gen_state)" where
  "odt_round E aces_CTL_directory lut_directory lut_resolution_1d lut_resolution_3d cleanup
       linear_display_space log_display_space odt acc st =
     (case odt of (odt_name, odt_values) \<Rightarrow>
      case acc of (colorspaces, displays, rrt_shaper) \<Rightarrow>
      case rrt_shaper of (shaper_name, to_CTL, from_CTL, input_scale, log2_params) \<Rightarrow>
     (case getitem_text odt_values ''transformUserName'' of
        Inl e \<Rightarrow> Inl e
      | Inr user_name \<Rightarrow>
     (let odt_name_legal =
            (if odt_name \<in> set dual_range_odts then user_name @ '' - Legal'' else user_name);
          odt_legal = setitem odt_values ''legalRange'' (Num 1);
          odt_aliases = [''out_'' @ compact_str E odt_name_legal]
      in case create_ACES_RRT_plus_ODT E odt_name_legal odt_legal rrt_shaper aces_CTL_directory
                lut_directory lut_resolution_1d lut_resolution_3d cleanup odt_aliases st of
           Inl e \<Rightarrow> Inl e
         | Inr ((cs, log2_params1), st1) \<Rightarrow>
     (let colorspaces = colorspaces @ [cs];
          displays = displays_set displays odt_name_legal
                       (linear_display_space, log_display_space, cs);
          rrt_shaper = (shaper_name, to_CTL, from_CTL, input_scale, log2_params1)
      in if odt_name \<in> set dual_range_odts then
           (let odt_name_full = user_name @ '' - Full'';
                odt_full = setitem odt_values ''legalRange'' (Num 0);
                odt_full_aliases = [''out_'' @ compact_str E odt_name_full]
            in case create_ACES_RRT_plus_ODT E odt_name_full odt_full rrt_shaper
                      aces_CTL_directory lut_directory lut_resolution_1d lut_resolution_3d
                      cleanup odt_full_aliases st1 of
                 Inl e \<Rightarrow> Inl e
               | Inr ((cs_full, log2_params2), st2) \<Rightarrow>
                   Inr ((colorspaces @ [cs_full],
                         displays_set displays odt_name_full
                           (linear_display_space, log_display_space, cs_full),
                         (shaper_name, to_CTL, from_CTL, input_scale, log2_params2)), st2))
         else Inr ((colorspaces, displays, rrt_shaper), st1)))))"

fun odts_loop ::
  "env \<Rightarrow> string \<Rightarrow> string \<Rightarrow> int \<Rightarrow> int \<Rightarrow> bool \<Rightarrow> ColorSpace \<Rightarrow> ColorSpace \<Rightarrow> registry \<Rightarrow>
   ColorSpace list \<times> displays \<times> shaper_info \<Rightarrow> gen_state \<Rightarrow>
   py_error + ((ColorSpace list \<times> displays \<times> shaper_info) \<times> gen_state)" where
  "odts_loop E aces_CTL_directory lut_directory lut_resolution_1d lut_resolution_3d cleanup
       linear_display_space log_display_space [] acc st = Inr (acc, st)"
| "odts_loop E aces_CTL_directory lut_directory lut_resolution_1d lut_resolution_3d cleanup
       linear_display_space log_display_space (odt # rest) acc st =
     (case odt_round E aces_CTL_directory lut_directory lut_resolution_1d lut_resolution_3d
             cleanup linear_display_space log_display_space odt acc st of
        Inl e \<Rightarrow> Inl e
      | Inr (acc1, st1) \<Rightarrow>
          odts_loop E aces_CTL_directory lut_directory lut_resolution_1d lut_resolution_3d
            cleanup linear_display_space log_display_space rest acc1 st1)"

text \<open>
  \<^verbatim>\<open>create_odts\<close> (lines 743-886).  Beside the colour spaces and the display
  grouping the model returns the parameter dict \<^verbatim>\<open>log2_params\<close> as the run
  leaves it.
\<close>

definition create_odts ::
  "env \<Rightarrow> string \<Rightarrow> string \<Rightarrow> int \<Rightarrow> int \<Rightarrow> registry \<Rightarrow> string \<Rightarrow> bool \<Rightarrow> ColorSpace \<Rightarrow>
   ColorSpace \<Rightarrow> gen_state \<Rightarrow>
   py_error + ((ColorSpace list \<times> displays \<times> pydict) \<times> gen_state)" where
  "create_odts E aces_CTL_directory lut_directory lut_resolution_1d lut_resolution_3d odt_info
       shaper_name cleanup linear_display_space log_display_space st =
     (let log2_shaper_name = shaper_name;
          log2_shaper_name_aliases = [''crv_'' @ compact_str E shaper_name];
          log2_params = [(''maxExposure'', Num 6.5),
                         (''middleGrey'', Num 0.18),
                         (''minExposure'', Num (-6))];
          (log2_shaper, st1) =
             create_generic_log E aces_CTL_directory lut_directory lut_resolution_1d cleanup
               log2_shaper_name log2_shaper_name_aliases 0 1 1 0.18 (-6) 6.5 st;
          colorspaces = [log2_shaper];
          shaper_input_scale_generic_log2 = 1;
          log2_shaper_data =
            (log2_shaper_name,
             path_join3 ''%s'' ''utilities'' ''ACESlib.OCIO_shaper_log2_to_lin_param.a1.0.0.ctl'',
             path_join3 ''%s'' ''utilities'' ''ACESlib.OCIO_shaper_lin_to_log2_param.a1.0.0.ctl'',
             shaper_input_scale_generic_log2,
             log2_params);
          log2_shaper_api1_name_aliases = [compact_str E shaper_name @ ''_ap1''];
          (log2_shaper_AP1, st2) =
             create_generic_log E aces_CTL_directory lut_directory lut_resolution_1d cleanup
               log2_shaper_name log2_shaper_api1_name_aliases 0 1 1 0.18 (-6) 6.5 st1;
          log2_shaper_AP1 = log2_shaper_AP1\<lparr>
             cs_name := cs_name log2_shaper_AP1 @ '' - AP1'',
             cs_to_reference_transforms :=
               cs_to_reference_transforms log2_shaper_AP1 @
               [Matrix (mat44_from_mat33 E ACES_AP1_to_AP0) None Forward]\<rparr>;
          colorspaces = colorspaces @ [log2_shaper_AP1];
          rrt_shaper = log2_shaper_data;
          sorted_odts = sorted_by_metadata odt_info
      in case odts_loop E aces_CTL_directory lut_directory lut_resolution_1d lut_resolution_3d
                cleanup linear_display_space log_display_space sorted_odts
                (colorspaces, [], rrt_shaper) st2 of
           Inl e \<Rightarrow> Inl e
         | Inr ((colorspaces, displays, rrt_shaper), st3) \<Rightarrow>
             Inr ((colorspaces, displays, snd (snd (snd (snd rrt_shaper)))), st3))"

subsection \<open>The whole configuration\<close>

text \<open>\<^verbatim>\<open>create_aces\<close> (lines 888-900).\<close>

definition create_aces :: ColorSpace where
  "create_aces =
     (ColorSpace_init ''ACES2065-1'')\<lparr>
        cs_description := ''The Academy Color Encoding System reference color space'',
        cs_equality_group := [],
        cs_aliases := [''lin_ap0'', ''aces''],
        cs_family := ''ACES'',
        cs_is_data := False,
        cs_allocation_type := Some ALLOCATION_LG2,
        cs_allocation_vars := [-15, 6]\<rparr>"

text \<open>\<^verbatim>\<open>create_colorspaces\<close> (lines 902-963).\<close>

definition create_colorspaces ::
  "env \<Rightarrow> string \<Rightarrow> string \<Rightarrow> int \<Rightarrow> int \<Rightarrow> registry \<Rightarrow> registry \<Rightarrow> string \<Rightarrow> bool \<Rightarrow>
   gen_state \<Rightarrow>
   py_error + ((ColorSpace \<times> ColorSpace list \<times> displays \<times> ColorSpace) \<times> gen_state)" where
  "create_colorspaces E aces_CTL_directory lut_directory lut_resolution_1d lut_resolution_3d
       lmt_info odt_info shaper_name cleanup st =
     (let ACES = create_aces;
          (ACEScc, st1) = create_ACEScc E aces_CTL_directory lut_directory lut_resolution_1d
                            cleanup ''ACEScc'' 0 1 1 st;
          (ACESproxy, st2) = create_ACESproxy E aces_CTL_directory lut_directory
                               lut_resolution_1d cleanup ''ACESproxy'' st1;
          ACEScg = create_ACEScg E aces_CTL_directory lut_directory lut_resolution_1d cleanup
                     ''ACEScg''
      in case create_ADX lut_directory lut_resolution_1d 10 ''ADX'' st2 of
           Inl e \<Rightarrow> Inl e
         | Inr (ADX10, st3) \<Rightarrow>
     (case create_ADX lut_directory lut_resolution_1d 16 ''ADX'' st3 of
        Inl e \<Rightarrow> Inl e
      | Inr (ADX16, st4) \<Rightarrow>
     (case create_lmts E aces_CTL_directory lut_directory lut_resolution_1d lut_resolution_3d
             lmt_info shaper_name cleanup st4 of
        Inl e \<Rightarrow> Inl e
      | Inr (lmts, st5) \<Rightarrow>
     (case create_odts E aces_CTL_directory lut_directory lut_resolution_1d lut_resolution_3d
             odt_info shaper_name cleanup ACES ACEScc st5 of
        Inl e \<Rightarrow> Inl e
      | Inr ((odts, displays, log2_params), st6) \<Rightarrow>
          Inr ((ACES, [ACEScc, ACESproxy, ACEScg, ADX10, ADX16] @ lmts @ odts, displays,
                ACEScc), st6)))))"

section \<open>Example inputs\<close>

text \<open>
  An instance of the parameters for the closed examples: \<open>sanitize_path\<close>
  replaces blanks and parentheses by underscores, \<open>compact_str\<close> removes
  blanks, \<open>mat44_from_mat33\<close> widens a matrix of nine coefficients.  No
  theorem about all inputs depends on it.
\<close>

definition example_env :: env where
  "example_env =
     \<lparr>sanitize_path =
        map (\<lambda>c. if c = CHR '' '' \<or> c = CHR ''('' \<or> c = CHR '')'' then CHR ''_'' else c),
      compact_str = filter (\<lambda>c. c \<noteq> CHR '' ''),
      mat44_from_mat33 = (\<lambda>m. case m of
          [a, b, c, d, e, f, g, h, i] \<Rightarrow> [a, b, c, 0, d, e, f, 0, g, h, i, 0, 0, 0, 0, 1]
        | _ \<Rightarrow> m)\<rparr>"

text \<open>An empty LUT directory, before any renderer call.\<close>

definition empty_state :: gen_state where
  "empty_state = \<lparr>st_files = {}, st_events = []\<rparr>"

text \<open>A shaper bundle as \<^verbatim>\<open>create_lmts\<close> and \<^verbatim>\<open>create_odts\<close> build them.\<close>

definition example_shaper :: shaper_info where
  "example_shaper =
     (''Log2 48 nits Shaper'',
      ''%s/utilities/ACESlib.OCIO_shaper_log2_to_lin_param.a1.0.0.ctl'',
      ''%s/utilities/ACESlib.OCIO_shaper_lin_to_log2_param.a1.0.0.ctl'',
      1,
      [(''maxExposure'', Num 6.5), (''middleGrey'', Num 0.18), (''minExposure'', Num (-6))])"

text \<open>An output entry with a forward and an inverse CTL description.\<close>

definition example_odt_values :: pydict where
  "example_odt_values =
     [(''transformCTL'', Str ''rec709/ODT.Academy.Rec709_100nits_dim.a1.0.0.ctl''),
      (''transformCTLInverse'', Str ''rec709/InvODT.Academy.Rec709_100nits_dim.a1.0.0.ctl''),
      (''transformUserName'', Str ''Rec.709''),
      (''transformUserNamePrefix'', Str ''ACES 1.0'')]"







section \<open>Notions used in the statements\<close>

text \<open>
  The order of Python 2 on the values: \<open>a < b\<close> when the comparison yields a
  negative number.
\<close>

instantiation pyval :: linorder
begin

definition less_eq_pyval :: "pyval \<Rightarrow> pyval \<Rightarrow> bool" where
  "less_eq_pyval a b = (pyval_cmp a b \<le> 0)"

definition less_pyval :: "pyval \<Rightarrow> pyval \<Rightarrow> bool" where
  "less_pyval a b = (pyval_cmp a b < 0)"

instance
proof
  fix x y z :: pyval
  show "(x < y) = (x \<le> y \<and> \<not> y \<le> x)"
    by (cases x; cases y) (auto simp: less_eq_pyval_def less_pyval_def)
  show "x \<le> x"
    by (cases x) (auto simp: less_eq_pyval_def)
  show "x \<le> y \<Longrightarrow> y \<le> z \<Longrightarrow> x \<le> z"
    by (cases x; cases y; cases z) (auto simp: less_eq_pyval_def split: if_splits)
  show "x \<le> y \<Longrightarrow> y \<le> x \<Longrightarrow> x = y"
    by (cases x; cases y) (auto simp: less_eq_pyval_def split: if_splits)
  show "x \<le> y \<or> y \<le> x"
    by (cases x; cases y) (auto simp: less_eq_pyval_def)
qed

end



text \<open>The renderer calls made between two states of a run.\<close>

definition new_calls :: "gen_state \<Rightarrow> gen_state \<Rightarrow> render_call list" where
  "new_calls st st' = rendered (drop (length (st_events st)) (st_events st'))"

text \<open>A transform step without the name of its LUT file.\<close>

fun step_shape :: "transform \<Rightarrow> transform" where
  "step_shape (LutFile p i d) = LutFile [] i d"
| "step_shape t = t"

text \<open>
  Between the states \<open>st\<close> and \<open>st'\<close> events were only added, and every
  renderer call among them satisfies \<open>P\<close>.
\<close>

definition grows :: "gen_state \<Rightarrow> gen_state \<Rightarrow> (render_call \<Rightarrow> bool) \<Rightarrow> bool" where
  "grows st st' P = (\<exists>evs. st_events st' = st_events st @ evs \<and> list_all P (rendered evs))"

text \<open>
  The value lines 611-614 store under \<^verbatim>\<open>legalRange\<close>: the entry's own, or 0 when
  the entry has none.
\<close>

definition legal_range_of :: "pydict \<Rightarrow> pyval" where
  "legal_range_of odt_values =
     (case map_of odt_values ''legalRange'' of None \<Rightarrow> Num 0 | Some v \<Rightarrow> v)"

section \<open>The ADX builder\<close>

text \<open>
  C5.  In \<^verbatim>\<open>cid_to_rle\<close> the input 0.6 itself is evaluated by the interpolated
  branch, where the table gives its last value; every input up to 0.6 is
  interpolated, and only an input above 0.6 is evaluated by the affine
  extension.
\<close>

theorem cid_to_rle_boundary:
  "cid_to_rle 0.6 = interpolate_1D 0.6 LUT_1D_xp LUT_1D_fp \<and>
   cid_to_rle 0.6 = -0.926545676714876 \<and>
   (\<forall>x. x \<le> 0.6 \<longrightarrow> cid_to_rle x = interpolate_1D x LUT_1D_xp LUT_1D_fp) \<and>
   (\<forall>x. 0.6 < x \<longrightarrow> cid_to_rle x = (100 / 55) * x - REF_PT)"
  by (simp add: cid_to_rle_def interpolate_1D_def LUT_1D_xp_def LUT_1D_fp_def)

theorem cid_to_rle_boundary_witness:
  "(0.6::real) < 1 \<and> cid_to_rle 1 = 100 / 55 - REF_PT \<and>
   (0.5::real) \<le> 0.6 \<and> cid_to_rle 0.5 = -1.121718645"
  using cid_to_rle_boundary
  by (simp add: interpolate_1D_def LUT_1D_xp_def LUT_1D_fp_def)

text \<open>
  C7, as the claim states it, fails: with a degenerate target interval and a
  proper source interval \<^verbatim>\<open>fit\<close> raises nothing and returns \<open>to_min\<close>.
\<close>

theorem fit_degenerate_target_counterexample:
  "fit (1 / 2) 0 1 2 2 = Inr 2"
  by (simp add: fit_def)

text \<open>
  C7, amended.  \<^verbatim>\<open>fit\<close> raises ValueError exactly when \<open>from_min\<close> equals
  \<open>from_max\<close>; for every other source interval it returns the affine
  remapping, which is \<open>to_min\<close> when the target interval is degenerate.
\<close>

theorem fit_raises_iff_source_degenerate:
  "(fit value from_min from_max to_min to_max = Inl (ValueError ''from_min == from_max''))
     = (from_min = from_max) \<and>
   ((\<exists>e. fit value from_min from_max to_min to_max = Inl e) = (from_min = from_max)) \<and>
   (from_min \<noteq> from_max \<longrightarrow>
      fit value from_min from_max to_min to_max =
        Inr ((value - from_min) / (from_max - from_min) * (to_max - to_min) + to_min)) \<and>
   (from_min \<noteq> from_max \<and> to_min = to_max \<longrightarrow>
      fit value from_min from_max to_min to_max = Inr to_min)"
  by (simp add: fit_def)

theorem fit_raises_iff_source_degenerate_witness:
  "(0::real) \<noteq> 1 \<and> fit (1 / 2) 0 1 (- 19 / 100) 3 = Inr (281 / 200)"
  using fit_raises_iff_source_degenerate [of "1 / 2" 0 1 "- 19 / 100" 3] by simp

text \<open>The sampling loop of the builder never raises: its source interval is \<open>[0, 1]\<close>.\<close>

lemma sample_loop_ok:
  "sample_loop js data =
     Inr (data @ map (\<lambda>i. cid_to_rle (real i / (real NUM_SAMPLES - 1) *
                                      (snd RANGE - fst RANGE) + fst RANGE)) js)"
  by (induction js arbitrary: data) (simp_all add: fit_def)

text \<open>
  C10.  \<^verbatim>\<open>create_ADX\<close> returns a colour space exactly for the bit depths 10
  and 16; for every other bit depth it raises UnboundLocalError at the first
  use of \<^verbatim>\<open>adx_to_cdd\<close>.
\<close>

theorem create_ADX_total_iff_depth_10_or_16:
  "(\<exists>cs st'. create_ADX lut_directory lut_resolution_1d bit_depth name st = Inr (cs, st'))
     = (bit_depth = 10 \<or> bit_depth = 16) \<and>
   (create_ADX lut_directory lut_resolution_1d bit_depth name st =
      Inl (UnboundLocalError ''adx_to_cdd''))
     = (bit_depth \<noteq> 10 \<and> bit_depth \<noteq> 16)"
  by (simp add: create_ADX_def create_CID_to_RLE_LUT_def sample_loop_ok Let_def)

theorem create_ADX_total_iff_depth_10_or_16_witness:
  "(\<exists>cs st'. create_ADX ''luts'' 1024 10 ''ADX'' empty_state = Inr (cs, st')) \<and>
   create_ADX ''luts'' 1024 12 ''ADX'' empty_state = Inl (UnboundLocalError ''adx_to_cdd'')"
  using create_ADX_total_iff_depth_10_or_16 [of "''luts''" 1024 10 "''ADX''" empty_state]
    create_ADX_total_iff_depth_10_or_16 [of "''luts''" 1024 12 "''ADX''" empty_state]
  by simp

section \<open>Names that are not bound\<close>

text \<open>
  C3.  A look entry that holds \<^verbatim>\<open>transformCTLInverse\<close> never gets its inverse
  transforms: \<^verbatim>\<open>create_ACES_LMT\<close> ends with an exception for every such entry.
\<close>

theorem create_ACES_LMT_inverse_raises:
  "has_key lmt_values ''transformCTLInverse'' \<Longrightarrow>
   \<exists>e. create_ACES_LMT E lmt_name lmt_values shaper_info aces_CTL_directory lut_directory
          lut_resolution_1d lut_resolution_3d cleanup aliases st = Inl e"
  by (auto simp: create_ACES_LMT_def Let_def split: prod.splits sum.splits)

theorem create_ACES_LMT_inverse_raises_witness:
  "has_key [(''transformCTLInverse'', Str ''lmt/inv.ctl''), (''transformUserName'', Str ''Look'')]
     ''transformCTLInverse'' \<and>
   create_ACES_LMT example_env ''Look''
     [(''transformCTLInverse'', Str ''lmt/inv.ctl''), (''transformUserName'', Str ''Look'')]
     example_shaper ''ctl'' ''luts'' 4096 65 True [''look_Look''] empty_state
   = Inl (NameError ''odt_values'')"
  using create_ACES_LMT_inverse_raises
    [of "[(''transformCTLInverse'', Str ''lmt/inv.ctl''), (''transformUserName'', Str ''Look'')]"
        example_env "''Look''" example_shaper "''ctl''" "''luts''" 4096 65 True
        "[''look_Look'']" empty_state]
  by (simp add: create_ACES_LMT_def has_key_def example_shaper_def generate_shaper_lut_def
        path_exists_def empty_state_def Let_def)

text \<open>
  The forward half: a look that is built holds no inverse description, has no
  inverse transforms, and its forward transforms are the inverse shaper LUT
  followed by the forward 3D LUT exactly when it holds \<^verbatim>\<open>transformCTL\<close>.
\<close>

lemma create_ACES_LMT_forward:
  assumes "create_ACES_LMT E lmt_name lmt_values shaper_info
             aces_CTL_directory lut_directory res1 res3 cleanup aliases st = Inr (cs, st')"
  shows "\<not> has_key lmt_values ''transformCTLInverse'' \<and>
         cs_to_reference_transforms cs = [] \<and>
         map step_shape (cs_from_reference_transforms cs) =
           (if has_key lmt_values ''transformCTL''
            then [LutFile [] Linear Inverse, LutFile [] Tetrahedral Forward] else [])"
proof -
  obtain shaper_name to_CTL from_CTL scale ps where
    sh: "shaper_info = (shaper_name, to_CTL, from_CTL, scale, ps)"
    by (metis prod_cases5)
  from assms sh obtain shaper_lut st1 frt where
    n: "\<not> has_key lmt_values ''transformCTLInverse''"
    and f: "(if has_key lmt_values ''transformCTL'' then
                 (case format_s to_CTL aces_CTL_directory of
                    Inl e \<Rightarrow> Inl e
                  | Inr ctl \<Rightarrow>
                 (case getitem_text lmt_values ''transformCTL'' of
                    Inl e \<Rightarrow> Inl e
                  | Inr transformCTL \<Rightarrow>
                 (let ctls = [ctl, path_join aces_CTL_directory transformCTL];
                      lut = sanitize_path E (shaper_name @ ''.'' @ lmt_name @ ''.spi3d'')
                  in if scale = 0 then Inl ZeroDivisionError
                     else Inr ([LutFile shaper_lut Linear Inverse, LutFile lut Tetrahedral Forward],
                            generate_3d_LUT_from_CTL (path_join lut_directory lut) ctls
                              res3 ''float'' (1 / scale) 1
                              ps cleanup aces_CTL_directory st1))))
               else Inr ([], st1)) = Inr (frt, st')"
    and c: "cs_from_reference_transforms cs = frt" "cs_to_reference_transforms cs = []"
    unfolding create_ACES_LMT_def Let_def
    by (auto split: sum.splits prod.splits if_splits)
  from f have "map step_shape frt =
      (if has_key lmt_values ''transformCTL''
       then [LutFile [] Linear Inverse, LutFile [] Tetrahedral Forward] else [])"
    by (auto simp: Let_def split: if_splits sum.splits)
  with n c show ?thesis by simp
qed

text \<open>
  C9.  An output entry that supplies \<^verbatim>\<open>transformLUT\<close> gets no colour space:
  \<^verbatim>\<open>create_ACES_RRT_plus_ODT\<close> ends with an exception for every such entry,
  NameError for \<^verbatim>\<open>shutil\<close> in the example.
\<close>

theorem create_ACES_RRT_plus_ODT_transformLUT_raises:
  "has_key odt_values ''transformLUT'' \<Longrightarrow>
   \<exists>e. create_ACES_RRT_plus_ODT E odt_name odt_values shaper_info aces_CTL_directory
          lut_directory lut_resolution_1d lut_resolution_3d cleanup aliases st = Inl e"
  by (auto simp: create_ACES_RRT_plus_ODT_def odt_forward_def Let_def
           split: prod.splits sum.splits)

theorem create_ACES_RRT_plus_ODT_transformLUT_raises_witness:
  "has_key [(''transformLUT'', Str ''/data/odt.spi3d''), (''transformUserName'', Str ''sRGB''),
            (''transformUserNamePrefix'', Str ''ACES 1.0'')] ''transformLUT'' \<and>
   create_ACES_RRT_plus_ODT example_env ''sRGB''
     [(''transformLUT'', Str ''/data/odt.spi3d''), (''transformUserName'', Str ''sRGB''),
      (''transformUserNamePrefix'', Str ''ACES 1.0'')]
     example_shaper ''ctl'' ''luts'' 1024 64 True [''out_sRGB''] empty_state
   = Inl (NameError ''shutil'')"
  using create_ACES_RRT_plus_ODT_transformLUT_raises
    [of "[(''transformLUT'', Str ''/data/odt.spi3d''), (''transformUserName'', Str ''sRGB''),
          (''transformUserNamePrefix'', Str ''ACES 1.0'')]"
        example_env "''sRGB''" example_shaper "''ctl''" "''luts''" 1024 64 True
        "[''out_sRGB'']" empty_state]
  by (simp add: create_ACES_RRT_plus_ODT_def odt_forward_def has_key_def getitem_text_def
        getitem_def as_text_def example_shaper_def generate_shaper_lut_def path_exists_def
        empty_state_def Let_def)

section \<open>Renderer calls of the output builder\<close>

text \<open>
  What one call of \<^verbatim>\<open>create_ACES_RRT_plus_ODT\<close> adds to the events, the
  parameter dict it leaves behind and the fields of the colour space it
  returns.
\<close>

lemma rendered_append: "rendered (xs @ ys) = rendered xs @ rendered ys"
  by (induction xs rule: rendered.induct) simp_all

lemma new_calls_append: "st_events st' = st_events st @ evs \<Longrightarrow> new_calls st st' = rendered evs"
  by (simp add: new_calls_def)

lemma grows_refl: "grows st st P"
  by (simp add: grows_def)

lemma grows_trans: "grows st st1 P \<Longrightarrow> grows st1 st2 P \<Longrightarrow> grows st st2 P"
  by (auto simp: grows_def rendered_append)

lemma grows_weaken: "grows st st' P \<Longrightarrow> (\<And>c. P c \<Longrightarrow> Q c) \<Longrightarrow> grows st st' Q"
  by (auto simp: grows_def list_all_iff)

lemma grows_new_calls: "grows st st' P \<Longrightarrow> list_all P (new_calls st st')"
  by (auto simp: grows_def new_calls_append)

lemma grows_render: "P c \<Longrightarrow> grows st (render c st) P"
  by (simp add: grows_def render_def)

lemma generate_shaper_lut_grows:
  "generate_shaper_lut E shaper_name to_CTL scale ps ctl_dir lut_dir res cleanup st = Inr (lut, st') \<Longrightarrow>
   grows st st' (\<lambda>c. rc_kind c = LUT_1D \<and> rc_params c = ps)"
  by (auto simp: generate_shaper_lut_def Let_def generate_1d_LUT_from_CTL_def grows_refl
           intro!: grows_render split: if_splits sum.splits)

lemma generate_shaper_lut_cached:
  "path_exists st (path_join lut_dir (shaper_name @ ''_to_aces.spi1d'')) \<Longrightarrow>
   generate_shaper_lut E shaper_name to_CTL scale ps ctl_dir lut_dir res cleanup st
     = Inr (shaper_name @ ''_to_aces.spi1d'', st)"
  by (simp add: generate_shaper_lut_def)

lemma odt_forward_grows:
  "odt_forward E odt_name odt_values shaper_name to_CTL scale ps tr ctl_dir lut_dir res cleanup st
     = Inr (ts, st') \<Longrightarrow>
   grows st st' (\<lambda>c. rc_kind c = LUT_3D \<and> rc_params c = ps)"
  by (auto simp: odt_forward_def Let_def generate_3d_LUT_from_CTL_def grows_refl
           intro!: grows_render split: if_splits sum.splits)

lemma odt_inverse_grows:
  "odt_inverse E odt_name odt_values shaper_name from_CTL scale ps sl ctl_dir lut_dir res cleanup st
     = Inr (ts, st') \<Longrightarrow>
   grows st st' (\<lambda>c. rc_kind c = LUT_3D \<and> rc_params c = ps)"
  by (auto simp: odt_inverse_def Let_def generate_3d_LUT_from_CTL_def grows_refl
           intro!: grows_render split: if_splits sum.splits)

lemma odt_build_params:
  assumes "create_ACES_RRT_plus_ODT E odt_name odt_values (shaper_name, to_CTL, from_CTL, scale, ps)
             ctl_dir lut_dir res1 res3 cleanup aliases st = Inr ((cs, ps'), st')"
  shows "ps' = setitem ps ''legalRange'' (legal_range_of odt_values)"
    and "grows st st' (\<lambda>c. rc_params c = ps')"
    and "path_exists st (path_join lut_dir (shaper_name @ ''_to_aces.spi1d'')) \<Longrightarrow>
         grows st st' (\<lambda>c. rc_kind c = LUT_3D)"
proof -
  from assms obtain lr lut st1 frt st2 trt where
    lr: "(if has_key odt_values ''legalRange'' then getitem odt_values ''legalRange'' else Inr (Num 0)) = Inr lr"
    and g: "generate_shaper_lut E shaper_name to_CTL scale (setitem ps ''legalRange'' lr) ctl_dir lut_dir res1 cleanup st = Inr (lut, st1)"
    and f: "odt_forward E odt_name odt_values shaper_name to_CTL scale (setitem ps ''legalRange'' lr)
              (LutFile lut Linear Inverse) ctl_dir lut_dir res3 cleanup st1 = Inr (frt, st2)"
    and i: "odt_inverse E odt_name odt_values shaper_name from_CTL scale (setitem ps ''legalRange'' lr)
              lut ctl_dir lut_dir res3 cleanup st2 = Inr (trt, st')"
    and p: "ps' = setitem ps ''legalRange'' lr"
    by (auto simp: create_ACES_RRT_plus_ODT_def Let_def split: sum.splits prod.splits)
  from lr have "lr = legal_range_of odt_values"
    by (auto simp: legal_range_of_def has_key_def getitem_def split: if_splits option.splits)
  with p show "ps' = setitem ps ''legalRange'' (legal_range_of odt_values)" by simp
  have g1: "grows st st1 (\<lambda>c. rc_params c = ps')"
    using generate_shaper_lut_grows [OF g] p by (auto elim: grows_weaken)
  have g2: "grows st1 st2 (\<lambda>c. rc_params c = ps')" "grows st1 st2 (\<lambda>c. rc_kind c = LUT_3D)"
    using odt_forward_grows [OF f] p by (auto elim: grows_weaken)
  have g3: "grows st2 st' (\<lambda>c. rc_params c = ps')" "grows st2 st' (\<lambda>c. rc_kind c = LUT_3D)"
    using odt_inverse_grows [OF i] p by (auto elim: grows_weaken)
  show "grows st st' (\<lambda>c. rc_params c = ps')"
    using g1 g2(1) g3(1) by (blast intro: grows_trans)
  show "grows st st' (\<lambda>c. rc_kind c = LUT_3D)"
    if "path_exists st (path_join lut_dir (shaper_name @ ''_to_aces.spi1d''))"
  proof -
    from that g have "st1 = st" by (simp add: generate_shaper_lut_cached)
    then show ?thesis using g2(2) g3(2) by (blast intro: grows_trans)
  qed
qed

lemma setitem_overwrite: "setitem (setitem d k w) k v = setitem d k v"
  by (induction d) auto

lemma map_of_setitem: "map_of (setitem d k v) k = Some v"
  by (induction d) auto

lemma odt_build_overwrites:
  "create_ACES_RRT_plus_ODT E odt_name odt_values
     (shaper_name, to_CTL, from_CTL, scale, setitem ps ''legalRange'' w)
     ctl_dir lut_dir res1 res3 cleanup aliases st
   = create_ACES_RRT_plus_ODT E odt_name odt_values (shaper_name, to_CTL, from_CTL, scale, ps)
     ctl_dir lut_dir res1 res3 cleanup aliases st"
  by (simp add: create_ACES_RRT_plus_ODT_def setitem_overwrite Let_def
        split: sum.splits cong: sum.case_cong)


lemma map_of_setitem_other: "k' \<noteq> k \<Longrightarrow> map_of (setitem d k v) k' = map_of d k'"
  by (induction d) auto








section \<open>Legal and full range variants\<close>


text \<open>The definitions a closed example of the output builder unfolds.\<close>

lemmas odt_example_defs =
  odt_round_def create_ACES_RRT_plus_ODT_def odt_forward_def odt_inverse_def
  generate_shaper_lut_def generate_1d_LUT_from_CTL_def generate_3d_LUT_from_CTL_def render_def
  path_exists_def getitem_text_def getitem_def as_text_def has_key_def Let_def
  example_env_def example_shaper_def example_odt_values_def empty_state_def
  path_join_def path_join3_def ColorSpace_init_def dual_range_odts_def



section \<open>The parameter dict of the shaper bundle\<close>

lemma map_replicate_same:
  "list_all (\<lambda>c. f c = v) xs \<Longrightarrow> map f xs = replicate (length xs) v"
  by (induction xs) simp_all

text \<open>
  C8, as the claim states it, fails: a build does change the parameter dict
  of the bundle it is given.  The dict of the example bundle has three keys;
  after one build it holds \<^verbatim>\<open>legalRange\<close> as well.
\<close>

theorem shaper_params_mutated_counterexample:
  "snd (fst (projr (create_ACES_RRT_plus_ODT example_env ''Rec.709'' example_odt_values
       example_shaper ''ctl'' ''luts'' 1024 64 True [''out_Rec.709''] empty_state)))
   = [(''legalRange'', Num 0), (''maxExposure'', Num 6.5), (''middleGrey'', Num 0.18),
      (''minExposure'', Num (-6))] \<and>
   snd (snd (snd (snd example_shaper)))
   = [(''maxExposure'', Num 6.5), (''middleGrey'', Num 0.18), (''minExposure'', Num (-6))]"
  by (simp add: odt_example_defs)

text \<open>
  C8, amended.  Every build of an output transform stores \<^verbatim>\<open>legalRange\<close> in
  the shared dict (the entry's value, or 0) and leaves every other key as it
  was; each renderer call of the build receives the dict with that value.
  The value an earlier build stored is overwritten before any use: a build
  yields the same result, dict and state whatever \<^verbatim>\<open>legalRange\<close> the dict held
  before.
\<close>

theorem legalRange_overwritten_by_each_build:
  "create_ACES_RRT_plus_ODT E odt_name odt_values
     (shaper_name, to_CTL, from_CTL, scale, setitem ps ''legalRange'' w)
     ctl_dir lut_dir res1 res3 cleanup aliases st
   = create_ACES_RRT_plus_ODT E odt_name odt_values (shaper_name, to_CTL, from_CTL, scale, ps)
     ctl_dir lut_dir res1 res3 cleanup aliases st \<and>
   (create_ACES_RRT_plus_ODT E odt_name odt_values (shaper_name, to_CTL, from_CTL, scale, ps)
      ctl_dir lut_dir res1 res3 cleanup aliases st = Inr ((cs, ps'), st') \<longrightarrow>
    ps' = setitem ps ''legalRange'' (legal_range_of odt_values) \<and>
    map_of ps' ''legalRange'' = Some (legal_range_of odt_values) \<and>
    (\<forall>k. k \<noteq> ''legalRange'' \<longrightarrow> map_of ps' k = map_of ps k) \<and>
    list_all (\<lambda>c. rc_params c = ps') (new_calls st st'))"
proof (intro conjI impI)
  show "create_ACES_RRT_plus_ODT E odt_name odt_values
     (shaper_name, to_CTL, from_CTL, scale, setitem ps ''legalRange'' w)
     ctl_dir lut_dir res1 res3 cleanup aliases st
   = create_ACES_RRT_plus_ODT E odt_name odt_values (shaper_name, to_CTL, from_CTL, scale, ps)
     ctl_dir lut_dir res1 res3 cleanup aliases st"
    by (rule odt_build_overwrites)
next
  assume b: "create_ACES_RRT_plus_ODT E odt_name odt_values (shaper_name, to_CTL, from_CTL, scale, ps)
      ctl_dir lut_dir res1 res3 cleanup aliases st = Inr ((cs, ps'), st')"
  show p: "ps' = setitem ps ''legalRange'' (legal_range_of odt_values)"
    by (rule odt_build_params(1) [OF b])
  show "map_of ps' ''legalRange'' = Some (legal_range_of odt_values)"
    by (simp add: p map_of_setitem)
  show "\<forall>k. k \<noteq> ''legalRange'' \<longrightarrow> map_of ps' k = map_of ps k"
    by (simp add: p map_of_setitem_other)
  show "list_all (\<lambda>c. rc_params c = ps') (new_calls st st')"
    by (rule grows_new_calls [OF odt_build_params(2) [OF b]])
qed

theorem legalRange_overwritten_by_each_build_witness:
  "\<exists>cs ps' st'.
     create_ACES_RRT_plus_ODT example_env ''Rec.709'' example_odt_values example_shaper
       ''ctl'' ''luts'' 1024 64 True [''out_Rec.709''] empty_state = Inr ((cs, ps'), st') \<and>
     map_of ps' ''legalRange'' = Some (Num 0) \<and>
     map rc_params (new_calls empty_state st') = [ps', ps', ps']"
proof -
  obtain cs ps' st' where r:
    "create_ACES_RRT_plus_ODT example_env ''Rec.709'' example_odt_values
       (''Log2 48 nits Shaper'',
        ''%s/utilities/ACESlib.OCIO_shaper_log2_to_lin_param.a1.0.0.ctl'',
        ''%s/utilities/ACESlib.OCIO_shaper_lin_to_log2_param.a1.0.0.ctl'',
        1,
        [(''maxExposure'', Num 6.5), (''middleGrey'', Num 0.18), (''minExposure'', Num (-6))])
       ''ctl'' ''luts'' 1024 64 True [''out_Rec.709''] empty_state = Inr ((cs, ps'), st')"
    and n: "length (new_calls empty_state st') = 3"
    by (simp add: odt_example_defs new_calls_def)
  note t = legalRange_overwritten_by_each_build [THEN conjunct2, rule_format, OF r]
  have l: "map_of ps' ''legalRange'' = Some (Num 0)"
    using t by (simp add: legal_range_of_def example_odt_values_def)
  have "list_all (\<lambda>c. rc_params c = ps') (new_calls empty_state st')"
    using t by blast
  then have "map rc_params (new_calls empty_state st')
      = replicate (length (new_calls empty_state st')) ps'"
    by (rule map_replicate_same)
  with n have "map rc_params (new_calls empty_state st') = [ps', ps', ps']"
    by (simp add: numeral_3_eq_3)
  then show ?thesis
    apply (rule_tac x = cs in exI, rule_tac x = ps' in exI, rule_tac x = st' in exI)
    using r l by (simp add: example_shaper_def)
qed

section \<open>Rendering and the files that exist\<close>





section \<open>The order in which the registries are read\<close>





















section \<open>The two branches of the density fit at 0.6\<close>

text \<open>
  Bounds on the exponential from its Taylor polynomial of degree five, and
  their transport through a squaring of the value and a doubling of the
  argument.
\<close>

lemma exp_taylor_lower:
  fixes x :: real
  assumes "0 \<le> x"
  shows "(\<Sum>k<n. x ^ k / fact k) \<le> exp x"
proof -
  obtain t where "exp x = (\<Sum>m<n. x ^ m / fact m) + exp t / fact n * x ^ n"
    using Maclaurin_exp_le by blast
  moreover have "0 \<le> exp t / fact n * x ^ n"
    using assms by simp
  ultimately show ?thesis by linarith
qed

lemma exp_taylor_upper:
  fixes x :: real
  assumes "0 \<le> x" "x \<le> 1 / 2"
  shows "exp x \<le> (\<Sum>k<n. x ^ k / fact k) + 2 * x ^ n / fact n"
proof -
  obtain t where t: "\<bar>t\<bar> \<le> \<bar>x\<bar>"
    and e: "exp x = (\<Sum>m<n. x ^ m / fact m) + exp t / fact n * x ^ n"
    using Maclaurin_exp_le by blast
  from t assms have "norm t \<le> 1 / 2" by simp
  then have "norm (exp t) \<le> 2" by (rule exp_bound_half)
  then have "exp t \<le> 2" by simp
  then have "exp t * (x ^ n / fact n) \<le> 2 * (x ^ n / fact n)"
    using assms by (intro mult_right_mono) simp_all
  with e show ?thesis by (simp add: field_simps)
qed

lemma taylor6:
  "(\<Sum>k<6. x ^ k / fact k) = 1 + x + x ^ 2 / 2 + x ^ 3 / 6 + x ^ 4 / 24 + x ^ 5 / (120 :: real)"
  by (simp add: eval_nat_numeral lessThan_Suc)

lemma exp_le_taylor6:
  fixes x :: real
  assumes "0 \<le> x" and "x \<le> 1 / 2"
    and "1 + x + x ^ 2 / 2 + x ^ 3 / 6 + x ^ 4 / 24 + x ^ 5 / 120 + 2 * x ^ 6 / 720 \<le> s"
  shows "exp x \<le> s"
proof -
  have "exp x \<le> (\<Sum>k<6. x ^ k / fact k) + 2 * x ^ 6 / fact 6"
    using assms(1,2) by (rule exp_taylor_upper)
  also have "\<dots> = 1 + x + x ^ 2 / 2 + x ^ 3 / 6 + x ^ 4 / 24 + x ^ 5 / 120 + 2 * x ^ 6 / 720"
    by (simp add: taylor6 fact_numeral)
  finally show ?thesis using assms(3) by simp
qed

lemma taylor6_le_exp:
  fixes x :: real
  assumes "0 \<le> x"
    and "s \<le> 1 + x + x ^ 2 / 2 + x ^ 3 / 6 + x ^ 4 / 24 + x ^ 5 / 120"
  shows "s \<le> exp x"
  using exp_taylor_lower [OF assms(1), of 6] assms(2) by (simp add: taylor6)

lemma exp_square_upper:
  fixes y :: real
  assumes "exp y \<le> s" and "y' = 2 * y" and "s ^ 2 \<le> s'"
  shows "exp y' \<le> s'"
proof -
  have "exp y' = exp y ^ 2" using assms(2) by (simp add: exp_double)
  also have "\<dots> \<le> s ^ 2" using assms(1) by (intro power_mono) simp_all
  finally show ?thesis using assms(3) by simp
qed

lemma exp_square_lower:
  fixes y :: real
  assumes "s \<le> exp y" and "y' = 2 * y" and "0 \<le> s" and "s' \<le> s ^ 2"
  shows "s' \<le> exp y'"
proof -
  have "s ^ 2 \<le> exp y ^ 2" using assms(1,3) by (intro power_mono) simp_all
  also have "\<dots> = exp y'" using assms(2) by (simp add: exp_double)
  finally show ?thesis using assms(4) by simp
qed

lemma less_ln_from_exp:
  fixes t :: real
  assumes "exp t < A"
  shows "t < ln A"
proof -
  have "0 < A" using assms by (rule less_trans [OF exp_gt_zero])
  then have "exp t < exp (ln A)" using assms by simp
  then show ?thesis by simp
qed

lemma ln_less_from_exp:
  fixes t :: real
  assumes "0 < A" and "A < exp t"
  shows "ln A < t"
proof -
  have "exp (ln A) < exp t" using assms by simp
  then show ?thesis by simp
qed

text \<open>
  The logarithms of 10 and of 50/9 to eighteen decimals: the exponential of
  the bound divided by \<open>2 ^ 14\<close> is enclosed by the Taylor polynomial and
  squared fourteen times, rounded to thirty decimals at each step.
\<close>

lemma ln10_lower: "230258509299404568301 / 100000000000000000000 < ln (10 :: real)"
proof -
  have e0: "exp (230258509299404568301 / 1638400000000000000000000 :: real) \<le> 500070274258473629081354833499 / 500000000000000000000000000000"
    by (rule exp_le_taylor6) (simp_all add: power_divide)
  have e1: "exp (230258509299404568301 / 819200000000000000000000 :: real) \<le> 200056223357556026479826861351 / 200000000000000000000000000000"
    by (rule exp_square_upper [OF e0]) (simp_all add: power_divide)
  have e2: "exp (230258509299404568301 / 409600000000000000000000 :: real) \<le> 1000562312602208636618265180593 / 1000000000000000000000000000000"
    by (rule exp_square_upper [OF e1]) (simp_all add: power_divide)
  have e3: "exp (230258509299404568301 / 204800000000000000000000 :: real) \<le> 200224988279975975176986756613 / 200000000000000000000000000000"
    by (rule exp_square_upper [OF e2]) (simp_all add: power_divide)
  have e4: "exp (230258509299404568301 / 102400000000000000000000 :: real) \<le> 501125574146456457732343613929 / 500000000000000000000000000000"
    by (rule exp_square_upper [OF e3]) (simp_all add: power_divide)
  have e5: "exp (230258509299404568301 / 51200000000000000000000 :: real) \<le> 100450736425446251566281743121 / 100000000000000000000000000000"
    by (rule exp_square_upper [OF e4]) (simp_all add: power_divide)
  have e6: "exp (230258509299404568301 / 25600000000000000000000 :: real) \<le> 504517522420723718877641036577 / 500000000000000000000000000000"
    by (rule exp_square_upper [OF e5]) (simp_all add: power_divide)
  have e7: "exp (230258509299404568301 / 12800000000000000000000 :: real) \<le> 50907586085909092073310520317 / 50000000000000000000000000000"
    by (rule exp_square_upper [OF e6]) (simp_all add: power_divide)
  have e8: "exp (230258509299404568301 / 6400000000000000000000 :: real) \<le> 1036632928437697997275327734539 / 1000000000000000000000000000000"
    by (rule exp_square_upper [OF e7]) (simp_all add: power_divide)
  have e9: "exp (230258509299404568301 / 3200000000000000000000 :: real) \<le> 1074607828321317497182097560049 / 1000000000000000000000000000000"
    by (rule exp_square_upper [OF e8]) (simp_all add: power_divide)
  have e10: "exp (230258509299404568301 / 1600000000000000000000 :: real) \<le> 1154781984689458179593744892973 / 1000000000000000000000000000000"
    by (rule exp_square_upper [OF e9]) (simp_all add: power_divide)
  have e11: "exp (230258509299404568301 / 800000000000000000000 :: real) \<le> 333380358040831006376984666101 / 250000000000000000000000000000"
    by (rule exp_square_upper [OF e10]) (simp_all add: power_divide)
  have e12: "exp (230258509299404568301 / 400000000000000000000 :: real) \<le> 1778279410038922800777376527557 / 1000000000000000000000000000000"
    by (rule exp_square_upper [OF e11]) (simp_all add: power_divide)
  have e13: "exp (230258509299404568301 / 200000000000000000000 :: real) \<le> 632455532033675866081079265993 / 200000000000000000000000000000"
    by (rule exp_square_upper [OF e12]) (simp_all add: power_divide)
  have e14: "exp (230258509299404568301 / 100000000000000000000 :: real) \<le> 9999999999999999989921838714297 / 1000000000000000000000000000000"
    by (rule exp_square_upper [OF e13]) (simp_all add: power_divide)
  have "exp (230258509299404568301 / 100000000000000000000 :: real) < 10"
    by (rule le_less_trans [OF e14]) simp
  then show ?thesis by (rule less_ln_from_exp)
qed

lemma ln10_upper: "ln (10 :: real) < 115129254649702284251 / 50000000000000000000"
proof -
  have e0: "1000140548516947258162832343501 / 1000000000000000000000000000000 \<le> exp (115129254649702284251 / 819200000000000000000000 :: real)"
    by (rule taylor6_le_exp) (simp_all add: power_divide)
  have e1: "250070279196945033099844923561 / 250000000000000000000000000000 \<le> exp (115129254649702284251 / 409600000000000000000000 :: real)"
    by (rule exp_square_lower [OF e0]) (simp_all add: power_divide)
  have e2: "200112462520441727323751218707 / 200000000000000000000000000000 \<le> exp (115129254649702284251 / 204800000000000000000000 :: real)"
    by (rule exp_square_lower [OF e1]) (simp_all add: power_divide)
  have e3: "1001124941399879875885916161041 / 1000000000000000000000000000000 \<le> exp (115129254649702284251 / 102400000000000000000000 :: real)"
    by (rule exp_square_lower [OF e2]) (simp_all add: power_divide)
  have e4: "250562787073228228866663548511 / 250000000000000000000000000000 \<le> exp (115129254649702284251 / 51200000000000000000000 :: real)"
    by (rule exp_square_lower [OF e3]) (simp_all add: power_divide)
  have e5: "502253682127231257833380109723 / 500000000000000000000000000000 \<le> exp (115129254649702284251 / 25600000000000000000000 :: real)"
    by (rule exp_square_lower [OF e4]) (simp_all add: power_divide)
  have e6: "100903504484144743776320319279 / 100000000000000000000000000000 \<le> exp (115129254649702284251 / 12800000000000000000000 :: real)"
    by (rule exp_square_lower [OF e5]) (simp_all add: power_divide)
  have e7: "1018151721718181841482195780953 / 1000000000000000000000000000000 \<le> exp (115129254649702284251 / 6400000000000000000000 :: real)"
    by (rule exp_square_lower [OF e6]) (simp_all add: power_divide)
  have e8: "1036632928437697997307878807907 / 1000000000000000000000000000000 \<le> exp (115129254649702284251 / 3200000000000000000000 :: real)"
    by (rule exp_square_lower [OF e7]) (simp_all add: power_divide)
  have e9: "537303914160658748624792294533 / 500000000000000000000000000000 \<le> exp (115129254649702284251 / 1600000000000000000000 :: real)"
    by (rule exp_square_lower [OF e8]) (simp_all add: power_divide)
  have e10: "230956396937891635947757814471 / 200000000000000000000000000000 \<le> exp (115129254649702284251 / 800000000000000000000 :: real)"
    by (rule exp_square_lower [OF e9]) (simp_all add: power_divide)
  have e11: "1333521432163324025842927475071 / 1000000000000000000000000000000 \<le> exp (115129254649702284251 / 400000000000000000000 :: real)"
    by (rule exp_square_lower [OF e10]) (simp_all add: power_divide)
  have e12: "71131176401556912066832241787 / 40000000000000000000000000000 \<le> exp (115129254649702284251 / 200000000000000000000 :: real)"
    by (rule exp_square_lower [OF e11]) (simp_all add: power_divide)
  have e13: "790569415042094833395732739797 / 250000000000000000000000000000 \<le> exp (115129254649702284251 / 100000000000000000000 :: real)"
    by (rule exp_square_lower [OF e12]) (simp_all add: power_divide)
  have e14: "10000000000000000010018332259103 / 1000000000000000000000000000000 \<le> exp (115129254649702284251 / 50000000000000000000 :: real)"
    by (rule exp_square_lower [OF e13]) (simp_all add: power_divide)
  have "10 < exp (115129254649702284251 / 50000000000000000000 :: real)"
    by (rule less_le_trans [OF _ e14]) simp
  then show ?thesis by (rule ln_less_from_exp [rotated]) simp
qed

lemma ln50_9_lower: "85739921404596333741 / 50000000000000000000 < ln (50 / 9 :: real)"
proof -
  have e0: "exp (85739921404596333741 / 819200000000000000000000 :: real) \<le> 1000104668467357673257854263003 / 1000000000000000000000000000000"
    by (rule exp_le_taylor6) (simp_all add: power_divide)
  have e1: "exp (85739921404596333741 / 409600000000000000000000 :: real) \<le> 1000209347890203405520020826939 / 1000000000000000000000000000000"
    by (rule exp_square_upper [OF e0]) (simp_all add: power_divide)
  have e2: "exp (85739921404596333741 / 204800000000000000000000 :: real) \<le> 500209369803472971828587278339 / 500000000000000000000000000000"
    by (rule exp_square_upper [OF e1]) (simp_all add: power_divide)
  have e3: "exp (85739921404596333741 / 102400000000000000000000 :: real) \<le> 125104706819593789069716826889 / 125000000000000000000000000000"
    by (rule exp_square_upper [OF e2]) (simp_all add: power_divide)
  have e4: "exp (85739921404596333741 / 51200000000000000000000 :: real) \<le> 50083800538932853483903530701 / 50000000000000000000000000000"
    by (rule exp_square_upper [OF e3]) (simp_all add: power_divide)
  have e5: "exp (85739921404596333741 / 25600000000000000000000 :: real) \<le> 50167741528472215701657517323 / 50000000000000000000000000000"
    by (rule exp_square_upper [OF e4]) (simp_all add: power_divide)
  have e6: "exp (85739921404596333741 / 12800000000000000000000 :: real) \<le> 1006720916027038306126663187259 / 1000000000000000000000000000000"
    by (rule exp_square_upper [OF e5]) (simp_all add: power_divide)
  have e7: "exp (85739921404596333741 / 6400000000000000000000 :: real) \<le> 5067435013831595563112883109 / 5000000000000000000000000000"
    by (rule exp_square_upper [OF e6]) (simp_all add: power_divide)
  have e8: "exp (85739921404596333741 / 3200000000000000000000 :: real) \<le> 513577952388128462320778029129 / 500000000000000000000000000000"
    by (rule exp_square_upper [OF e7]) (simp_all add: power_divide)
  have e9: "exp (85739921404596333741 / 1600000000000000000000 :: real) \<le> 263762313179182745733872397757 / 250000000000000000000000000000"
    by (rule exp_square_upper [OF e8]) (simp_all add: power_divide)
  have e10: "exp (85739921404596333741 / 800000000000000000000 :: real) \<le> 278282231414533119844082354109 / 250000000000000000000000000000"
    by (rule exp_square_upper [OF e9]) (simp_all add: power_divide)
  have e11: "exp (85739921404596333741 / 400000000000000000000 :: real) \<le> 1239056005136828223984654827937 / 1000000000000000000000000000000"
    by (rule exp_square_upper [OF e10]) (simp_all add: power_divide)
  have e12: "exp (85739921404596333741 / 200000000000000000000 :: real) \<le> 767629891932817845091032573847 / 500000000000000000000000000000"
    by (rule exp_square_upper [OF e11]) (simp_all add: power_divide)
  have e13: "exp (85739921404596333741 / 100000000000000000000 :: real) \<le> 2357022603955158413481270286399 / 1000000000000000000000000000000"
    by (rule exp_square_upper [OF e12]) (simp_all add: power_divide)
  have e14: "exp (85739921404596333741 / 50000000000000000000 :: real) \<le> 2777777777777777774977137779617 / 500000000000000000000000000000"
    by (rule exp_square_upper [OF e13]) (simp_all add: power_divide)
  have "exp (85739921404596333741 / 50000000000000000000 :: real) < 50 / 9"
    by (rule le_less_trans [OF e14]) simp
  then show ?thesis by (rule less_ln_from_exp)
qed

lemma ln50_9_upper: "ln (50 / 9 :: real) < 171479842809192667683 / 100000000000000000000"
proof -
  have e0: "125013083558419709157247119107 / 125000000000000000000000000000 \<le> exp (171479842809192667683 / 1638400000000000000000000 :: real)"
    by (rule taylor6_le_exp) (simp_all add: power_divide)
  have e1: "125026168486275425690033279041 / 125000000000000000000000000000 \<le> exp (171479842809192667683 / 819200000000000000000000 :: real)"
    by (rule exp_square_lower [OF e0]) (simp_all add: power_divide)
  have e2: "200083747921389188731533094041 / 200000000000000000000000000000 \<le> exp (171479842809192667683 / 409600000000000000000000 :: real)"
    by (rule exp_square_lower [OF e1]) (simp_all add: power_divide)
  have e3: "200167530911350062511743370659 / 200000000000000000000000000000 \<le> exp (171479842809192667683 / 204800000000000000000000 :: real)"
    by (rule exp_square_lower [OF e2]) (simp_all add: power_divide)
  have e4: "500838005389328534840018367969 / 500000000000000000000000000000 \<le> exp (171479842809192667683 / 102400000000000000000000 :: real)"
    by (rule exp_square_lower [OF e3]) (simp_all add: power_divide)
  have e5: "501677415284722157018544590389 / 500000000000000000000000000000 \<le> exp (171479842809192667683 / 51200000000000000000000 :: real)"
    by (rule exp_square_lower [OF e4]) (simp_all add: power_divide)
  have e6: "1006720916027038306134567284137 / 1000000000000000000000000000000 \<le> exp (171479842809192667683 / 25600000000000000000000 :: real)"
    by (rule exp_square_lower [OF e5]) (simp_all add: power_divide)
  have e7: "506743501383159556319245530549 / 500000000000000000000000000000 \<le> exp (171479842809192667683 / 12800000000000000000000 :: real)"
    by (rule exp_square_lower [OF e6]) (simp_all add: power_divide)
  have e8: "1027155904776256924673814213027 / 1000000000000000000000000000000 \<le> exp (171479842809192667683 / 6400000000000000000000 :: real)"
    by (rule exp_square_lower [OF e7]) (simp_all add: power_divide)
  have e9: "1055049252716730983001757899323 / 1000000000000000000000000000000 \<le> exp (171479842809192667683 / 3200000000000000000000 :: real)"
    by (rule exp_square_lower [OF e8]) (simp_all add: power_divide)
  have e10: "556564462829066239758081037363 / 500000000000000000000000000000 \<le> exp (171479842809192667683 / 1600000000000000000000 :: real)"
    by (rule exp_square_lower [OF e9]) (simp_all add: power_divide)
  have e11: "49562240205473128971838335253 / 40000000000000000000000000000 \<le> exp (171479842809192667683 / 800000000000000000000 :: real)"
    by (rule exp_square_lower [OF e10]) (simp_all add: power_divide)
  have e12: "307051956773127138190702044437 / 200000000000000000000000000000 \<le> exp (171479842809192667683 / 400000000000000000000 :: real)"
    by (rule exp_square_lower [OF e11]) (simp_all add: power_divide)
  have e13: "589255650988789603962501870763 / 250000000000000000000000000000 \<le> exp (171479842809192667683 / 200000000000000000000 :: real)"
    by (rule exp_square_lower [OF e12]) (simp_all add: power_divide)
  have e14: "2777777777777777780560304894957 / 500000000000000000000000000000 \<le> exp (171479842809192667683 / 100000000000000000000 :: real)"
    by (rule exp_square_lower [OF e13]) (simp_all add: power_divide)
  have "50 / 9 < exp (171479842809192667683 / 100000000000000000000 :: real)"
    by (rule less_le_trans [OF _ e14]) simp
  then show ?thesis by (rule ln_less_from_exp [rotated]) simp
qed

lemma log10_of_018_bounds:
  "\<bar>- 926545676714876 / 1000000000000000 - (12 / 11 - (14 / 11 - log 10 (18 / 100 :: real)))\<bar>
   < 1 / 10 ^ 15"
proof -
  define q :: real where "q = ln (50 / 9) / ln 10"
  have l: "ln (9 / 50 :: real) = - ln (50 / 9)"
    using ln_inverse [of "50 / 9 :: real"] by simp
  have p: "0 < ln (10 :: real)" by simp
  have "65536019550909 / 88000000000000 * ln (10 :: real) < ln (50 / 9)"
    using ln10_upper ln50_9_lower by (simp add: field_simps)
  then have q1: "65536019550909 / 88000000000000 < q"
    using p by (simp add: q_def pos_less_divide_eq)
  have "ln (50 / 9 :: real) < 8192002443863647 / 11000000000000000 * ln 10"
    using ln10_lower ln50_9_upper by (simp add: field_simps)
  then have q2: "q < 8192002443863647 / 11000000000000000"
    using p by (simp add: q_def pos_divide_less_eq)
  have "log 10 (18 / 100 :: real) = - q"
    by (simp add: log_def l q_def)
  then have e: "- 926545676714876 / 1000000000000000 - (12 / 11 - (14 / 11 - log 10 (18 / 100 :: real)))
      = q - 2048000610965909 / 2750000000000000"
    by simp
  show ?thesis
    unfolding e abs_less_iff using q1 q2 by simp
qed

text \<open>
  C6.  With the floats read as the reals they denote, the two branches of
  \<^verbatim>\<open>cid_to_rle\<close> agree at 0.6 to less than \<open>10\<^sup>-\<^sup>1\<^sup>5\<close>, one unit of the last
  decimal of the table's last value: the interpolated branch gives that
  value, the affine branch gives \<open>(100 / 55) * 0.6 - REF_PT\<close>.
\<close>

theorem cid_to_rle_branches_agree_at_boundary:
  "\<bar>interpolate_1D 0.6 LUT_1D_xp LUT_1D_fp - ((100 / 55) * 0.6 - REF_PT)\<bar> < 1 / 10 ^ 15"
proof -
  have i: "interpolate_1D 0.6 LUT_1D_xp LUT_1D_fp = - 926545676714876 / 1000000000000000"
    by (simp add: interpolate_1D_def LUT_1D_xp_def LUT_1D_fp_def)
  have a: "(100 / 55) * 0.6 - REF_PT = 12 / 11 - (14 / 11 - log 10 (18 / 100 :: real))"
    by (simp add: REF_PT_def)
  show ?thesis
    unfolding i a by (rule log10_of_018_bounds)
qed

end
